theory Spec2Isabelle
  imports Main
begin

section \<open>Python values: exceptions, strings, numbers\<close>

text \<open>
  A Python exception is kept as its class name and the text \<open>str(e)\<close> gives; the
  handlers of the servers only ever format \<open>str(e)\<close> into a message or re-raise.
\<close>

datatype exn = Exn (exn_class: string) (exn_str: string)

text \<open>
  \<open>d[k]\<close> on a dict without the key \<open>k\<close> raises \<open>KeyError(k)\<close>, whose \<open>str\<close> is
  \<open>repr(k)\<close>. The keys looked up by the servers are fixed identifiers (no quote, no
  backslash), for which \<open>repr\<close> is the key between single quotes.
\<close>

definition KeyError :: "string \<Rightarrow> exn" where
  "KeyError k = Exn ''KeyError'' ([CHR 0x27] @ k @ [CHR 0x27])"

definition ValueError :: "string \<Rightarrow> exn" where
  "ValueError message = Exn ''ValueError'' message"

text \<open>\<open>sep.join(xs)\<close> of Python.\<close>

fun join :: "string \<Rightarrow> string list \<Rightarrow> string" where
  "join sep [] = []"
| "join sep [x] = x"
| "join sep (x # y # ys) = x @ sep @ join sep (y # ys)"

text \<open>\<open>str(n)\<close> for a length \<open>n\<close>: the decimal digits, most significant first.\<close>

definition digit_char :: "nat \<Rightarrow> char" where
  "digit_char d = char_of (48 + d)"

fun str_nat :: "nat \<Rightarrow> string" where
  "str_nat n = (if n < 10 then [digit_char n] else str_nat (n div 10) @ [digit_char (n mod 10)])"

declare str_nat.simps [simp del]

section \<open>The process and its collaborators\<close>

text \<open>
  What a server process can touch: its two output streams (one entry per \<open>print\<close>),
  and the cloud backend, which is outside the repository. The backend is a state \<open>'b\<close>
  that only the backend operations change; \<open>calls\<close> records every backend operation
  the server invokes, oldest first.
\<close>

datatype backend_call =
    ListBuckets
  | GetObject string string
  | PutObject string string string
  | ListTables
  | GetItem string string string
  | PutItem string

record 'b world =
  stdout :: "string list"
  stderr :: "string list"
  calls :: "backend_call list"
  bstate :: 'b

text \<open>
  The responses of the backend are Python dicts. A list-buckets response maps
  \<open>'Buckets'\<close> to a list of dicts, each with a \<open>'Name'\<close>; a get-item response may map
  \<open>'Item'\<close> to the item, itself a dict from attribute names to values \<open>'a\<close>.
\<close>

type_synonym bucket = "string \<rightharpoonup> string"
type_synonym s3_response = "string \<rightharpoonup> bucket list"
type_synonym 'a item = "(string \<times> 'a) list"
type_synonym 'a ddb_response = "string \<rightharpoonup> 'a item"

text \<open>
  The external collaborators, as parameters: the operations of the boto3 clients (each
  returns a response or raises, and may change the backend), and the Python built-ins
  whose output the servers only pass on (\<open>str\<close> of a dict, \<open>json.loads\<close>).
  \<open>get_object\<close> stands for the request together with reading and decoding the body,
  \<open>get_item\<close> and \<open>put_item\<close> for \<open>dynamodb.Table(name)\<close> together with the
  operation on the table: in each handler these statements share one \<open>try\<close> block.
\<close>

record ('b, 'a, 'j) extern =
  list_buckets :: "'b \<Rightarrow> (exn + s3_response) \<times> 'b"
  get_object :: "string \<Rightarrow> string \<Rightarrow> 'b \<Rightarrow> (exn + string) \<times> 'b"
  put_object :: "string \<Rightarrow> string \<Rightarrow> string \<Rightarrow> 'b \<Rightarrow> (exn + unit) \<times> 'b"
  list_tables :: "'b \<Rightarrow> (exn + (string \<rightharpoonup> string list)) \<times> 'b"
  get_item :: "string \<Rightarrow> string \<Rightarrow> string \<Rightarrow> 'b \<Rightarrow> (exn + 'a ddb_response) \<times> 'b"
  put_item :: "string \<Rightarrow> 'j \<Rightarrow> 'b \<Rightarrow> (exn + unit) \<times> 'b"
  json_loads :: "string \<Rightarrow> exn + 'j"
  str_item :: "'a item \<Rightarrow> string"
  str_dict :: "(string \<rightharpoonup> string) \<Rightarrow> string"

definition invoke :: "backend_call \<Rightarrow> ('b \<Rightarrow> 'r \<times> 'b) \<Rightarrow> 'b world \<Rightarrow> 'r \<times> 'b world" where
  "invoke c operation w =
     (case operation (bstate w) of
        (r, b') \<Rightarrow> (r, w\<lparr>calls := calls w @ [c], bstate := b'\<rparr>))"

text \<open>\<open>[bucket['Name'] for bucket in response['Buckets']]\<close>\<close>

fun names_of :: "bucket list \<Rightarrow> exn + string list" where
  "names_of [] = Inr []"
| "names_of (b # bs) =
     (case b ''Name'' of
        None \<Rightarrow> Inl (KeyError ''Name'')
      | Some n \<Rightarrow> (case names_of bs of Inl e \<Rightarrow> Inl e | Inr ns \<Rightarrow> Inr (n # ns)))"

definition bucket_names :: "s3_response \<Rightarrow> exn + string list" where
  "bucket_names response =
     (case response ''Buckets'' of
        None \<Rightarrow> Inl (KeyError ''Buckets'')
      | Some bs \<Rightarrow> names_of bs)"

text \<open>\<open>response.get('Item', {})\<close>\<close>

definition get_Item :: "'a ddb_response \<Rightarrow> 'a item" where
  "get_Item response = (case response ''Item'' of None \<Rightarrow> [] | Some i \<Rightarrow> i)"

section \<open>subprocess/mcp\_server.py\<close>

definition log :: "string \<Rightarrow> 'b world \<Rightarrow> 'b world" where
  "log message w = w\<lparr>stderr := stderr w @ [''[SERVER] '' @ message]\<rparr>"

record schema =
  schema_type :: string
  properties :: "(string \<times> string) list"
  required :: "string list"

record Tool =
  name :: string
  description :: string
  inputSchema :: schema

datatype TextContent = TextContent (tc_type: string) (tc_text: string)

definition tools :: "Tool list" where
  "tools =
     [\<lparr>name = ''list_s3_buckets'', description = ''List all S3 buckets'',
       inputSchema = \<lparr>schema_type = ''object'', properties = [], required = []\<rparr>\<rparr>,
      \<lparr>name = ''get_s3_object'', description = ''Get an object from S3'',
       inputSchema = \<lparr>schema_type = ''object'',
         properties = [(''bucket'', ''string''), (''key'', ''string'')],
         required = [''bucket'', ''key'']\<rparr>\<rparr>,
      \<lparr>name = ''query_dynamodb'', description = ''Query a DynamoDB table'',
       inputSchema = \<lparr>schema_type = ''object'',
         properties = [(''table_name'', ''string''), (''key'', ''string''), (''value'', ''string'')],
         required = [''table_name'', ''key'', ''value'']\<rparr>\<rparr>]"

definition list_tools :: "'b world \<Rightarrow> Tool list \<times> 'b world" where
  "list_tools w = (tools, log ''list_tools called'' w)"

text \<open>
  The body of the outer \<open>try\<close> of \<open>call_tool\<close>: \<open>Inl e\<close> is an exception that leaves
  the body, \<open>Inr r\<close> a returned list of content blocks. \<open>arguments\<close> is the dict of
  the call; its values are strings, the type every schema above declares.
\<close>

definition call_tool_try ::
  "('b, 'a, 'j) extern \<Rightarrow> string \<Rightarrow> (string \<rightharpoonup> string) \<Rightarrow> 'b world
     \<Rightarrow> (exn + TextContent list) \<times> 'b world" where
  "call_tool_try X nm arguments w =
     (if nm = ''list_s3_buckets'' then
        (case invoke ListBuckets (list_buckets X) w of
           (Inl e, w') \<Rightarrow> (Inl e, w')
         | (Inr response, w') \<Rightarrow>
             (case bucket_names response of
                Inl e \<Rightarrow> (Inl e, w')
              | Inr buckets \<Rightarrow>
                  (Inr [TextContent ''text'' (''S3 Buckets: '' @ join '', '' buckets)], w')))
      else if nm = ''get_s3_object'' then
        (case arguments ''bucket'' of
           None \<Rightarrow> (Inl (KeyError ''bucket''), w)
         | Some bucket \<Rightarrow>
             (case arguments ''key'' of
                None \<Rightarrow> (Inl (KeyError ''key''), w)
              | Some key \<Rightarrow>
                  (case invoke (GetObject bucket key) (get_object X bucket key) w of
                     (Inl e, w') \<Rightarrow> (Inr [TextContent ''text'' (''Error: '' @ exn_str e)], w')
                   | (Inr content, w') \<Rightarrow> (Inr [TextContent ''text'' content], w'))))
      else if nm = ''query_dynamodb'' then
        (case arguments ''table_name'' of
           None \<Rightarrow> (Inl (KeyError ''table_name''), w)
         | Some table_name \<Rightarrow>
             (case arguments ''key'' of
                None \<Rightarrow> (Inl (KeyError ''key''), w)
              | Some key \<Rightarrow>
                  (case arguments ''value'' of
                     None \<Rightarrow> (Inl (KeyError ''value''), w)
                   | Some v \<Rightarrow>
                       (case invoke (GetItem table_name key v) (get_item X table_name key v) w of
                          (Inl e, w') \<Rightarrow>
                            (Inr [TextContent ''text'' (''Error: '' @ exn_str e)], w')
                        | (Inr response, w') \<Rightarrow>
                            (Inr [TextContent ''text'' (str_item X (get_Item response))], w')))))
      else (Inl (ValueError (''Unknown tool: '' @ nm)), w))"

text \<open>
  \<open>call_tool\<close>: the log line, the body, and the outer handler, which logs the
  exception and raises it again.
\<close>

definition call_tool ::
  "('b, 'a, 'j) extern \<Rightarrow> string \<Rightarrow> (string \<rightharpoonup> string) \<Rightarrow> 'b world
     \<Rightarrow> (exn + TextContent list) \<times> 'b world" where
  "call_tool X nm arguments w =
     (case call_tool_try X nm arguments
             (log (''call_tool: '' @ nm @ '' with '' @ str_dict X arguments) w) of
        (Inl e, w') \<Rightarrow> (Inl e, log (''ERROR in call_tool: '' @ exn_str e) w')
      | (Inr r, w') \<Rightarrow> (Inr r, w'))"

text \<open>
  Module start: the clients are built inside a \<open>try\<close>; a failure is logged and the
  process leaves with \<open>sys.exit(1)\<close>. \<open>boto3\<close> is the constructor of the SDK: it
  returns \<open>Some e\<close> when building the client raises \<open>e\<close>. \<open>environ\<close> is the process
  environment, which this module never reads. \<open>Inl code\<close> is an exit, \<open>Inr cs\<close> the
  clients built. The keyword arguments of the two constructor calls are literals of
  the program text.
\<close>

record client_spec =
  kind :: string
  service :: string
  region_name :: string
  profile_name :: "string option"

definition s3_client :: client_spec where
  "s3_client = \<lparr>kind = ''client'', service = ''s3'',
                 region_name = ''us-east-1'', profile_name = None\<rparr>"

definition dynamodb :: client_spec where
  "dynamodb = \<lparr>kind = ''resource'', service = ''dynamodb'',
                region_name = ''us-east-1'', profile_name = None\<rparr>"

definition startup ::
  "(client_spec \<Rightarrow> exn option) \<Rightarrow> (string \<rightharpoonup> string) \<Rightarrow> 'b world
     \<Rightarrow> (int + client_spec list) \<times> 'b world" where
  "startup boto3 environ w =
     (let w1 = log ''Starting AWS MCP Server...'' w;
          w2 = log ''Initializing AWS clients...'' w1
      in case boto3 s3_client of
           Some e \<Rightarrow> (Inl 1, log (''ERROR initializing AWS clients: '' @ exn_str e) w2)
         | None \<Rightarrow>
             (case boto3 dynamodb of
                Some e \<Rightarrow> (Inl 1, log (''ERROR initializing AWS clients: '' @ exn_str e) w2)
              | None \<Rightarrow>
                  (Inr [s3_client, dynamodb], log ''AWS clients initialized successfully'' w2)))"

text \<open>
  The decorators \<open>@app.list_tools()\<close> and \<open>@app.call_tool()\<close> (lines 27 and 67) hand
  the two functions to the protocol library, which answers the requests of a client
  through them. The library is not part of the repository; it is modelled by what it
  does with a request. A \<open>list_tools\<close> request is answered with the descriptors the
  function returns. A \<open>call_tool\<close> request for a tool that \<open>list_tools\<close> announces is
  first checked against the tool's \<open>inputSchema\<close>: a failed check is answered with a
  result marked \<open>isError\<close> whose text starts \<open>Input validation error\<close>, and
  \<open>call_tool\<close> is not entered. Otherwise \<open>call_tool\<close> runs: the list it returns becomes
  a result with \<open>isError\<close> false, an exception it raises a result with \<open>isError\<close>
  true whose single text block is \<open>str(e)\<close>.
\<close>

datatype request = ListToolsRequest | CallToolRequest string "string \<rightharpoonup> string"

datatype response =
    ListToolsResult "Tool list"
  | CallToolResult (tool_content: "TextContent list") (isError: bool)

text \<open>
  The check of the arguments against a schema. The values of the arguments are strings,
  the type the schemas declare for every property, so the check can only fail on a
  required property that is missing; the message names the first one.
\<close>

definition validate :: "schema \<Rightarrow> (string \<rightharpoonup> string) \<Rightarrow> string option" where
  "validate s arguments =
     (case find (\<lambda>k. arguments k = None) (required s) of
        None \<Rightarrow> None
      | Some k \<Rightarrow> Some ([CHR 0x27] @ k @ [CHR 0x27] @ '' is a required property''))"

definition make_error_result :: "string \<Rightarrow> response" where
  "make_error_result error_message = CallToolResult [TextContent ''text'' error_message] True"

definition run_call_tool ::
  "('b, 'a, 'j) extern \<Rightarrow> string \<Rightarrow> (string \<rightharpoonup> string) \<Rightarrow> 'b world
     \<Rightarrow> response \<times> 'b world" where
  "run_call_tool X nm arguments w =
     (case call_tool X nm arguments w of
        (Inl e, w') \<Rightarrow> (make_error_result (exn_str e), w')
      | (Inr results, w') \<Rightarrow> (CallToolResult results False, w'))"

definition app_call_tool ::
  "('b, 'a, 'j) extern \<Rightarrow> string \<Rightarrow> (string \<rightharpoonup> string) \<Rightarrow> 'b world
     \<Rightarrow> response \<times> 'b world" where
  "app_call_tool X nm arguments w =
     (case find (\<lambda>t. name t = nm) tools of
        None \<Rightarrow> run_call_tool X nm arguments w
      | Some tool \<Rightarrow>
          (case validate (inputSchema tool) arguments of
             Some message \<Rightarrow> (make_error_result (''Input validation error: '' @ message), w)
           | None \<Rightarrow> run_call_tool X nm arguments w))"

fun handle_request ::
  "('b, 'a, 'j) extern \<Rightarrow> request \<Rightarrow> 'b world \<Rightarrow> response \<times> 'b world" where
  "handle_request X ListToolsRequest w =
     (case list_tools w of (ts, w') \<Rightarrow> (ListToolsResult ts, w'))"
| "handle_request X (CallToolRequest nm arguments) w = app_call_tool X nm arguments w"

fun serve ::
  "('b, 'a, 'j) extern \<Rightarrow> request list \<Rightarrow> 'b world \<Rightarrow> response list \<times> 'b world" where
  "serve X [] w = ([], w)"
| "serve X (r # rs) w =
     (case handle_request X r w of
        (resp, w') \<Rightarrow> (case serve X rs w' of (resps, w'') \<Rightarrow> (resp # resps, w'')))"

text \<open>
  \<open>traceback.print_exc(file=sys.stderr)\<close>: the lines of the traceback, kept as one
  entry of the error stream.
\<close>

definition print_exc :: "exn \<Rightarrow> 'b world \<Rightarrow> 'b world" where
  "print_exc e w = w\<lparr>stderr := stderr w @ [''Traceback (most recent call last): '' @ exn_class e @ '': '' @ exn_str e]\<rparr>"

text \<open>
  \<open>main\<close> and the \<open>__main__\<close> block around it. \<open>transport\<close> is what the library's
  loop ends with once the requests are served: \<open>None\<close> when the streams close, \<open>Some e\<close>
  when it raises. The result is the exit status and the responses to the requests.
\<close>

definition main ::
  "('b, 'a, 'j) extern \<Rightarrow> request list \<Rightarrow> exn option \<Rightarrow> 'b world
     \<Rightarrow> (exn option \<times> response list) \<times> 'b world" where
  "main X requests transport w =
     (let w1 = log ''Starting stdio server...'' w;
          w2 = log ''stdio server started, running app...'' w1
      in case serve X requests w2 of
           (resps, w3) \<Rightarrow>
             (case transport of
                None \<Rightarrow> ((None, resps), w3)
              | Some e \<Rightarrow> ((Some e, resps), print_exc e (log (''ERROR in main: '' @ exn_str e) w3))))"

definition server_process ::
  "(client_spec \<Rightarrow> exn option) \<Rightarrow> (string \<rightharpoonup> string) \<Rightarrow> ('b, 'a, 'j) extern
     \<Rightarrow> request list \<Rightarrow> exn option \<Rightarrow> 'b world \<Rightarrow> (int \<times> response list) \<times> 'b world" where
  "server_process boto3 environ X requests transport w =
     (case startup boto3 environ w of
        (Inl code, w1) \<Rightarrow> ((code, []), w1)
      | (Inr clients, w1) \<Rightarrow>
          (case main X requests transport (log ''Running asyncio.run(main())...'' w1) of
             ((None, resps), w2) \<Rightarrow> ((0, resps), w2)
           | ((Some e, resps), w2) \<Rightarrow>
               ((1, resps), print_exc e (log (''FATAL ERROR: '' @ exn_str e) w2))))"

section \<open>subprocess-strands/mcp\_server\_strands.py\<close>

text \<open>
  Each handler of this server is registered by \<open>@mcp.tool()\<close>, in the order of the
  program text. The registry is the library's: a dict from the name of the function to
  its descriptor, which keeps the order of insertion; registering a name that is already
  there leaves the registry as it is; listing gives the values of the dict. A descriptor
  is kept here as the name of the function, the first line of its docstring (the short
  form of the description) and its parameters with their annotated types.
\<close>

record fn_tool =
  fn_name :: string
  fn_doc :: string
  fn_parameters :: "(string \<times> string) list"

type_synonym registry = "(string \<times> fn_tool) list"

definition mcp_tool :: "fn_tool \<Rightarrow> registry \<Rightarrow> registry" where
  "mcp_tool fn r = (if map_of r (fn_name fn) = None then r @ [(fn_name fn, fn)] else r)"

definition mcp_list_tools :: "registry \<Rightarrow> fn_tool list" where
  "mcp_list_tools r = map snd r"

definition register_all :: "fn_tool list \<Rightarrow> registry" where
  "register_all fns = foldl (\<lambda>r fn. mcp_tool fn r) [] fns"

definition mcp :: registry where
  "mcp = register_all
     [\<lparr>fn_name = ''list_s3_buckets'', fn_doc = ''List all S3 buckets in your AWS account.'',
       fn_parameters = []\<rparr>,
      \<lparr>fn_name = ''get_s3_object'', fn_doc = ''Get an object from an S3 bucket.'',
       fn_parameters = [(''bucket'', ''str''), (''key'', ''str'')]\<rparr>,
      \<lparr>fn_name = ''put_s3_object'', fn_doc = ''Upload content to an S3 bucket.'',
       fn_parameters = [(''bucket'', ''str''), (''key'', ''str''), (''content'', ''str'')]\<rparr>,
      \<lparr>fn_name = ''list_dynamodb_tables'',
       fn_doc = ''List all DynamoDB tables in your AWS account.'', fn_parameters = []\<rparr>,
      \<lparr>fn_name = ''query_dynamodb'', fn_doc = ''Query a DynamoDB table by partition key.'',
       fn_parameters = [(''table_name'', ''str''), (''key'', ''str''), (''value'', ''str'')]\<rparr>,
      \<lparr>fn_name = ''put_dynamodb_item'', fn_doc = ''Put an item into a DynamoDB table.'',
       fn_parameters = [(''table_name'', ''str''), (''item_json'', ''str'')]\<rparr>]"

text \<open>
  Every handler of this server is one \<open>try\<close> whose \<open>except Exception\<close> formats the
  message, logs it and returns it: \<open>failed prefix e\<close> is that block.
\<close>

definition failed :: "string \<Rightarrow> exn \<Rightarrow> 'b world \<Rightarrow> string \<times> 'b world" where
  "failed prefix e w =
     (let error_msg = prefix @ exn_str e in (error_msg, log (''ERROR: '' @ error_msg) w))"

definition strands_list_s3_buckets :: "('b, 'a, 'j) extern \<Rightarrow> 'b world \<Rightarrow> string \<times> 'b world" where
  "strands_list_s3_buckets X w =
     (case invoke ListBuckets (list_buckets X) (log ''list_s3_buckets called'' w) of
        (Inl e, w') \<Rightarrow> failed ''Error listing S3 buckets: '' e w'
      | (Inr response, w') \<Rightarrow>
          (case bucket_names response of
             Inl e \<Rightarrow> failed ''Error listing S3 buckets: '' e w'
           | Inr buckets \<Rightarrow>
               (''S3 Buckets ('' @ str_nat (length buckets) @ ''): '' @ join '', '' buckets,
                log (''Successfully listed '' @ str_nat (length buckets) @ '' buckets'') w')))"

definition strands_get_s3_object ::
  "('b, 'a, 'j) extern \<Rightarrow> string \<Rightarrow> string \<Rightarrow> 'b world \<Rightarrow> string \<times> 'b world" where
  "strands_get_s3_object X bucket key w =
     (case invoke (GetObject bucket key) (get_object X bucket key)
             (log (''get_s3_object called: bucket='' @ bucket @ '', key='' @ key) w) of
        (Inl e, w') \<Rightarrow> failed ''Error getting S3 object: '' e w'
      | (Inr content, w') \<Rightarrow>
          (content,
           log (''Successfully retrieved object '' @ key @ '' from bucket '' @ bucket) w'))"

definition strands_put_s3_object ::
  "('b, 'a, 'j) extern \<Rightarrow> string \<Rightarrow> string \<Rightarrow> string \<Rightarrow> 'b world \<Rightarrow> string \<times> 'b world" where
  "strands_put_s3_object X bucket key content w =
     (case invoke (PutObject bucket key content) (put_object X bucket key content)
             (log (''put_s3_object called: bucket='' @ bucket @ '', key='' @ key) w) of
        (Inl e, w') \<Rightarrow> failed ''Error uploading to S3: '' e w'
      | (Inr u, w') \<Rightarrow>
          (''Successfully uploaded object to s3://'' @ bucket @ ''/'' @ key,
           log (''Successfully uploaded object to s3://'' @ bucket @ ''/'' @ key) w'))"

definition strands_list_dynamodb_tables ::
  "('b, 'a, 'j) extern \<Rightarrow> 'b world \<Rightarrow> string \<times> 'b world" where
  "strands_list_dynamodb_tables X w =
     (case invoke ListTables (list_tables X) (log ''list_dynamodb_tables called'' w) of
        (Inl e, w') \<Rightarrow> failed ''Error listing DynamoDB tables: '' e w'
      | (Inr response, w') \<Rightarrow>
          (let tables = (case response ''TableNames'' of None \<Rightarrow> [] | Some ts \<Rightarrow> ts) in
           (''DynamoDB Tables ('' @ str_nat (length tables) @ ''): '' @ join '', '' tables,
            log (''Successfully listed '' @ str_nat (length tables) @ '' tables'') w')))"

definition strands_query_dynamodb ::
  "('b, 'a, 'j) extern \<Rightarrow> string \<Rightarrow> string \<Rightarrow> string \<Rightarrow> 'b world \<Rightarrow> string \<times> 'b world" where
  "strands_query_dynamodb X table_name key v w =
     (case invoke (GetItem table_name key v) (get_item X table_name key v)
             (log (''query_dynamodb called: table='' @ table_name @ '', key='' @ key
                     @ '', value='' @ v) w) of
        (Inl e, w') \<Rightarrow> failed ''Error querying DynamoDB: '' e w'
      | (Inr response, w') \<Rightarrow>
          (let item = get_Item response in
           if item \<noteq> [] then
             (''Found item: '' @ str_item X item, log ''Successfully retrieved item'' w')
           else
             (''No item found with '' @ key @ ''='' @ v, log ''No item found'' w')))"

definition strands_put_dynamodb_item ::
  "('b, 'a, 'j) extern \<Rightarrow> string \<Rightarrow> string \<Rightarrow> 'b world \<Rightarrow> string \<times> 'b world" where
  "strands_put_dynamodb_item X table_name item_json w =
     (let w1 = log (''put_dynamodb_item called: table='' @ table_name) w in
      case json_loads X item_json of
        Inl e \<Rightarrow> failed ''Error putting item to DynamoDB: '' e w1
      | Inr item \<Rightarrow>
          (case invoke (PutItem table_name) (put_item X table_name item) w1 of
             (Inl e, w') \<Rightarrow> failed ''Error putting item to DynamoDB: '' e w'
           | (Inr u, w') \<Rightarrow>
               (''Successfully put item into '' @ table_name,
                log (''Successfully put item into '' @ table_name) w')))"

section \<open>local/mcp\_server.py and local-strands/mcp\_server\_strands.py\<close>

text \<open>
  The HTTP servers read the profile and the region from the environment
  (\<open>os.getenv\<close>), print to standard output, and do not log. An empty
  \<open>AWS_PROFILE\<close> counts as unset (\<open>if aws_profile:\<close>).
\<close>

definition getenv :: "(string \<rightharpoonup> string) \<Rightarrow> string \<Rightarrow> string \<Rightarrow> string" where
  "getenv environ k dflt = (case environ k of None \<Rightarrow> dflt | Some v \<Rightarrow> v)"

definition session_clients :: "string option \<Rightarrow> string \<Rightarrow> client_spec list" where
  "session_clients profile region =
     [\<lparr>kind = ''client'', service = ''s3'', region_name = region, profile_name = profile\<rparr>,
      \<lparr>kind = ''resource'', service = ''dynamodb'', region_name = region,
       profile_name = profile\<rparr>]"

definition local_session :: "(string \<rightharpoonup> string) \<Rightarrow> 'b world \<Rightarrow> client_spec list \<times> 'b world" where
  "local_session environ w =
     (let aws_profile = environ ''AWS_PROFILE'';
          aws_region = getenv environ ''AWS_DEFAULT_REGION'' ''us-east-1'';
          default_credentials =
            (session_clients None aws_region,
             w\<lparr>stdout := stdout w @ [''Using default AWS credentials'']\<rparr>)
      in case aws_profile of
           None \<Rightarrow> default_credentials
         | Some p \<Rightarrow>
             if p \<noteq> [] then
               (session_clients (Some p) aws_region,
                w\<lparr>stdout := stdout w @ [''Using AWS profile: '' @ p]\<rparr>)
             else default_credentials)"

text \<open>\<open>list_s3_buckets\<close> of local/mcp\_server.py has no \<open>try\<close>: an exception leaves it.\<close>

definition local_list_s3_buckets ::
  "('b, 'a, 'j) extern \<Rightarrow> 'b world \<Rightarrow> (exn + string) \<times> 'b world" where
  "local_list_s3_buckets X w =
     (case invoke ListBuckets (list_buckets X) w of
        (Inl e, w') \<Rightarrow> (Inl e, w')
      | (Inr response, w') \<Rightarrow>
          (case bucket_names response of
             Inl e \<Rightarrow> (Inl e, w')
           | Inr buckets \<Rightarrow>
               (Inr (''S3 Buckets ('' @ str_nat (length buckets) @ '' total):'' @ [CHR 0x0A]
                     @ join [CHR 0x0A] (map (\<lambda>b. ''  - '' @ b) buckets)), w')))"

text \<open>\<open>query_dynamodb\<close> and \<open>put_dynamodb_item\<close> of local-strands/mcp\_server\_strands.py.\<close>

definition local_query_dynamodb ::
  "('b, 'a, 'j) extern \<Rightarrow> string \<Rightarrow> string \<Rightarrow> string \<Rightarrow> 'b world \<Rightarrow> string \<times> 'b world" where
  "local_query_dynamodb X table_name key v w =
     (case invoke (GetItem table_name key v) (get_item X table_name key v) w of
        (Inl e, w') \<Rightarrow> (''Error querying DynamoDB: '' @ exn_str e, w')
      | (Inr response, w') \<Rightarrow>
          (let item = get_Item response in
           if item \<noteq> [] then (''Found item: '' @ str_item X item, w')
           else (''No item found with '' @ key @ ''='' @ v, w')))"

definition local_put_dynamodb_item ::
  "('b, 'a, 'j) extern \<Rightarrow> string \<Rightarrow> string \<Rightarrow> 'b world \<Rightarrow> string \<times> 'b world" where
  "local_put_dynamodb_item X table_name item_json w =
     (case json_loads X item_json of
        Inl e \<Rightarrow> (''Error putting item to DynamoDB: '' @ exn_str e, w)
      | Inr item \<Rightarrow>
          (case invoke (PutItem table_name) (put_item X table_name item) w of
             (Inl e, w') \<Rightarrow> (''Error putting item to DynamoDB: '' @ exn_str e, w')
           | (Inr u, w') \<Rightarrow> (''Successfully put item into '' @ table_name, w')))"

section \<open>Reading a listing back\<close>

text \<open>
  What a reader of the text returned by \<open>list_s3_buckets\<close> finds in it. These
  functions are not part of the servers; they state what "the count embedded in the
  string" and "the names listed after it" are. The text starts with \<open>S3 Buckets (\<close>,
  the count is the run of decimal digits that follows, and the listing starts three
  characters from the closing parenthesis (after \<open>"): "\<close>, or after \<open>"):"\<close> and
  the line break).
\<close>

definition is_digit :: "char \<Rightarrow> bool" where
  "is_digit c = (48 \<le> (of_char c :: nat) \<and> (of_char c :: nat) < 58)"

definition nat_of_digits :: "string \<Rightarrow> nat" where
  "nat_of_digits ds = foldl (\<lambda>a c. 10 * a + (of_char c - 48)) 0 ds"

definition embedded_count :: "string \<Rightarrow> nat" where
  "embedded_count s = nat_of_digits (takeWhile is_digit (drop (length ''S3 Buckets ('') s))"

definition listing :: "string \<Rightarrow> string" where
  "listing s = drop 3 (dropWhile (\<lambda>c. c \<noteq> CHR '')'') s)"

text \<open>\<open>s.split(sep)\<close> of Python for a non-empty separator, with the piece read so far.\<close>

fun split_acc :: "string \<Rightarrow> string \<Rightarrow> string \<Rightarrow> string list" where
  "split_acc sep cur [] = [cur]"
| "split_acc sep cur (c # cs) =
     (if sep \<noteq> [] \<and> take (length sep) (c # cs) = sep
      then cur # split_acc sep [] (drop (length sep) (c # cs))
      else split_acc sep (cur @ [c]) cs)"

definition listed_names :: "string \<Rightarrow> string list" where
  "listed_names s = (if listing s = [] then [] else split_acc '', '' [] (listing s))"

definition listed_lines :: "string \<Rightarrow> string list" where
  "listed_lines s =
     (if listing s = [] then []
      else map (drop (length ''  - '')) (split_acc [CHR 0x0A] [] (listing s)))"

section \<open>Texts that cannot be JSON\<close>

text \<open>
  A necessary condition of a valid JSON text (RFC 8259), to name inputs that are not
  valid JSON; it is not part of the servers. Outside its string literals a JSON text
  consists of white space, the six structural characters, the characters of numbers and
  the letters of the names \<open>false\<close>, \<open>null\<close> and \<open>true\<close>. \<open>outside_strings\<close> drops
  the string literals (from a quotation mark to the next one that no backslash
  escapes).
\<close>

fun outside_strings :: "bool \<Rightarrow> string \<Rightarrow> string" where
  "outside_strings in_string [] = []"
| "outside_strings in_string (c # cs) =
     (if in_string then
        (if c = CHR 0x5C then outside_strings True (drop 1 cs)
         else if c = CHR 0x22 then outside_strings False cs
         else outside_strings True cs)
      else if c = CHR 0x22 then outside_strings True cs
      else c # outside_strings False cs)"

definition json_characters :: string where
  "json_characters =
     [CHR 0x20, CHR 0x09, CHR 0x0A, CHR 0x0D] @ ''[]{}:,'' @ ''-+.0123456789eE''
       @ ''falsenulltrue''"

definition may_be_json :: "string \<Rightarrow> bool" where
  "may_be_json s = list_all (\<lambda>c. c \<in> set json_characters) (outside_strings False s)"

section \<open>Example collaborators\<close>

text \<open>
  A small backend to run the handlers on: two buckets, one object, one table. The
  backend state counts the writes. \<open>json_loads\<close> is Python's \<open>json.loads\<close> on three
  kinds of text: the empty object, the object text \<open>nan_item\<close> with a member \<open>NaN\<close>
  (which \<open>json.loads\<close> accepts, and whose float the DynamoDB resource then refuses to
  serialise), and texts it rejects.
\<close>

definition nan_item :: string where
  "nan_item = ''{'' @ [CHR 0x22] @ ''x'' @ [CHR 0x22] @ '': NaN}''"

definition demo :: "(nat, string, string) extern" where
  "demo =
     \<lparr>list_buckets = (\<lambda>b. (Inr [''Buckets'' \<mapsto> [[''Name'' \<mapsto> ''alpha''], [''Name'' \<mapsto> ''beta'']]], b)),
      get_object = (\<lambda>bucket key b.
        if bucket = ''alpha'' \<and> key = ''hello.txt'' then (Inr ''hello'', b)
        else (Inl (Exn ''NoSuchKey'' ''The specified key does not exist.''), b)),
      put_object = (\<lambda>bucket key content b. (Inr (), Suc b)),
      list_tables = (\<lambda>b. (Inr [''TableNames'' \<mapsto> [''users'']], b)),
      get_item = (\<lambda>table_name key v b.
        if table_name \<noteq> ''users'' then (Inl (Exn ''ResourceNotFoundException'' ''Requested resource not found''), b)
        else if v = ''1'' then (Inr [''Item'' \<mapsto> [(key, v), (''name'', ''Ann'')]], b)
        else (Inr Map.empty, b)),
      put_item = (\<lambda>table_name item b.
        if item = ''{x: nan}''
        then (Inl (Exn ''TypeError'' ''Float types are not supported. Use Decimal types instead.''), b)
        else (Inr (), Suc b)),
      json_loads = (\<lambda>s.
        if s = ''{}'' then Inr ''{}''
        else if s = nan_item then Inr ''{x: nan}''
        else Inl (Exn ''JSONDecodeError'' ''Expecting value'')),
      str_item = (\<lambda>i. ''{'' @ join '', '' (map (\<lambda>(k, v). k @ '': '' @ v) i) @ ''}''),
      str_dict = (\<lambda>d. ''{..}'')\<rparr>"

definition demo_down :: "(nat, string, string) extern" where
  "demo_down = demo\<lparr>list_buckets := (\<lambda>b. (Inl (Exn ''ClientError'' ''AccessDenied''), b))\<rparr>"

definition demo_echo :: "(nat, string, string) extern" where
  "demo_echo = demo\<lparr>get_object := (\<lambda>bucket key b. (Inr ''Error: The specified key does not exist.'', b))\<rparr>"

definition w0 :: "nat world" where
  "w0 = \<lparr>stdout = [], stderr = [], calls = [], bstate = 0\<rparr>"

text \<open>An SDK constructor that cannot build the DynamoDB resource.\<close>

definition no_dynamodb :: "client_spec \<Rightarrow> exn option" where
  "no_dynamodb c =
     (if service c = ''dynamodb'' then Some (Exn ''UnknownServiceError'' ''Unknown service'')
      else None)"

section \<open>Basic facts\<close>

lemma log_calls [simp]: "calls (log m w) = calls w" by (simp add: log_def)
lemma log_bstate [simp]: "bstate (log m w) = bstate w" by (simp add: log_def)
lemma log_stdout [simp]: "stdout (log m w) = stdout w" by (simp add: log_def)
lemma log_stderr [simp]: "stderr (log m w) = stderr w @ [''[SERVER] '' @ m]" by (simp add: log_def)

lemma invoke_stdout [simp]: "stdout (snd (invoke c f w)) = stdout w"
  by (simp add: invoke_def split: prod.splits)
lemma invoke_stderr [simp]: "stderr (snd (invoke c f w)) = stderr w"
  by (simp add: invoke_def split: prod.splits)
lemma invoke_fst [simp]: "fst (invoke c f w) = fst (f (bstate w))"
  by (simp add: invoke_def split: prod.splits)

lemma names_tools: "map name tools = [''list_s3_buckets'', ''get_s3_object'', ''query_dynamodb'']"
  by (simp add: tools_def)

lemma call_tool_try_unknown:
  assumes "nm \<notin> set (map name tools)"
  shows "call_tool_try X nm arguments w = (Inl (ValueError (''Unknown tool: '' @ nm)), w)"
  using assms by (simp add: names_tools call_tool_try_def)

lemma call_tool_fst: "fst (call_tool X nm arguments w) =
   fst (call_tool_try X nm arguments (log (''call_tool: '' @ nm @ '' with '' @ str_dict X arguments) w))"
  by (simp add: call_tool_def split: prod.splits sum.splits)

lemma call_tool_calls: "calls (snd (call_tool X nm arguments w)) =
   calls (snd (call_tool_try X nm arguments (log (''call_tool: '' @ nm @ '' with '' @ str_dict X arguments) w)))"
  by (simp add: call_tool_def split: prod.splits sum.splits)

lemma call_tool_bstate: "bstate (snd (call_tool X nm arguments w)) =
   bstate (snd (call_tool_try X nm arguments (log (''call_tool: '' @ nm @ '' with '' @ str_dict X arguments) w)))"
  by (simp add: call_tool_def split: prod.splits sum.splits)

lemma call_tool_stdout: "stdout (snd (call_tool X nm arguments w)) =
   stdout (snd (call_tool_try X nm arguments (log (''call_tool: '' @ nm @ '' with '' @ str_dict X arguments) w)))"
  by (simp add: call_tool_def split: prod.splits sum.splits)

lemma try_list_s3_buckets:
  "call_tool_try X ''list_s3_buckets'' arguments w =
     (case invoke ListBuckets (list_buckets X) w of
        (Inl e, w') \<Rightarrow> (Inl e, w')
      | (Inr response, w') \<Rightarrow>
          (case bucket_names response of
             Inl e \<Rightarrow> (Inl e, w')
           | Inr buckets \<Rightarrow>
               (Inr [TextContent ''text'' (''S3 Buckets: '' @ join '', '' buckets)], w')))"
  by (simp add: call_tool_try_def)

lemma try_get_s3_object:
  "call_tool_try X ''get_s3_object'' arguments w =
     (case arguments ''bucket'' of
        None \<Rightarrow> (Inl (KeyError ''bucket''), w)
      | Some bucket \<Rightarrow>
          (case arguments ''key'' of
             None \<Rightarrow> (Inl (KeyError ''key''), w)
           | Some key \<Rightarrow>
               (case invoke (GetObject bucket key) (get_object X bucket key) w of
                  (Inl e, w') \<Rightarrow> (Inr [TextContent ''text'' (''Error: '' @ exn_str e)], w')
                | (Inr content, w') \<Rightarrow> (Inr [TextContent ''text'' content], w'))))"
  by (simp add: call_tool_try_def)

lemma try_query_dynamodb:
  "call_tool_try X ''query_dynamodb'' arguments w =
     (case arguments ''table_name'' of
        None \<Rightarrow> (Inl (KeyError ''table_name''), w)
      | Some table_name \<Rightarrow>
          (case arguments ''key'' of
             None \<Rightarrow> (Inl (KeyError ''key''), w)
           | Some key \<Rightarrow>
               (case arguments ''value'' of
                  None \<Rightarrow> (Inl (KeyError ''value''), w)
                | Some v \<Rightarrow>
                    (case invoke (GetItem table_name key v) (get_item X table_name key v) w of
                       (Inl e, w') \<Rightarrow>
                         (Inr [TextContent ''text'' (''Error: '' @ exn_str e)], w')
                     | (Inr response, w') \<Rightarrow>
                         (Inr [TextContent ''text'' (str_item X (get_Item response))], w')))))"
  by (simp add: call_tool_try_def)

lemma nm_cases:
  obtains "nm = ''list_s3_buckets''" | "nm = ''get_s3_object''" | "nm = ''query_dynamodb''"
  | "nm \<notin> set (map name tools)"
  by (auto simp: names_tools)

lemma call_tool_try_streams:
  "stdout (snd (call_tool_try X nm arguments w)) = stdout w
   \<and> stderr (snd (call_tool_try X nm arguments w)) = stderr w"
proof (cases nm rule: nm_cases)
  case 1
  then show ?thesis
    by (simp add: try_list_s3_buckets invoke_def split: prod.splits sum.splits)
next
  case 2
  then show ?thesis
    by (simp add: try_get_s3_object invoke_def split: prod.splits sum.splits option.splits)
next
  case 3
  then show ?thesis
    by (simp add: try_query_dynamodb invoke_def split: prod.splits sum.splits option.splits)
next
  case 4
  then show ?thesis by (simp add: call_tool_try_unknown)
qed

lemma call_tool_try_stdout: "stdout (snd (call_tool_try X nm arguments w)) = stdout w"
  by (simp add: call_tool_try_streams)

lemma call_tool_stderr:
  "\<exists>ms. stderr (snd (call_tool X nm arguments w))
         = stderr w @ (''[SERVER] call_tool: '' @ nm @ '' with '' @ str_dict X arguments) # ms"
proof -
  let ?w = "log (''call_tool: '' @ nm @ '' with '' @ str_dict X arguments) w"
  obtain r w' where h: "call_tool_try X nm arguments ?w = (r, w')"
    by (cases "call_tool_try X nm arguments ?w")
  then have "stderr w' = stderr ?w" using call_tool_try_streams [of X nm arguments ?w] by simp
  with h show ?thesis by (cases r) (simp_all add: call_tool_def)
qed

lemma get_s3_object_failure:
  assumes "arguments ''bucket'' = Some b" "arguments ''key'' = Some k"
    and "fst (get_object X b k (bstate w)) = Inl e"
  shows "fst (call_tool X ''get_s3_object'' arguments w)
           = Inr [TextContent ''text'' (''Error: '' @ exn_str e)]"
  using assms
  by (cases "get_object X b k (bstate w)") (simp add: call_tool_fst try_get_s3_object invoke_def)

lemma query_dynamodb_failure:
  assumes "arguments ''table_name'' = Some t" "arguments ''key'' = Some k" "arguments ''value'' = Some v"
    and "fst (get_item X t k v (bstate w)) = Inl e"
  shows "fst (call_tool X ''query_dynamodb'' arguments w)
           = Inr [TextContent ''text'' (''Error: '' @ exn_str e)]"
  using assms
  by (cases "get_item X t k v (bstate w)") (simp add: call_tool_fst try_query_dynamodb invoke_def)

lemma strands_get_s3_object_failure:
  assumes "fst (get_object X b k (bstate w)) = Inl e"
  shows "fst (strands_get_s3_object X b k w) = ''Error getting S3 object: '' @ exn_str e"
  using assms
  by (cases "get_object X b k (bstate w)") (simp add: strands_get_s3_object_def invoke_def failed_def Let_def)

lemma print_exc_stdout [simp]: "stdout (print_exc e w) = stdout w"
  by (simp add: print_exc_def)
lemma print_exc_calls [simp]: "calls (print_exc e w) = calls w"
  by (simp add: print_exc_def)
lemma print_exc_bstate [simp]: "bstate (print_exc e w) = bstate w"
  by (simp add: print_exc_def)

lemma startup_stdout: "stdout (snd (startup boto3 environ w)) = stdout w"
  by (simp add: startup_def Let_def split: option.splits)

lemma startup_stderr:
  "\<exists>ms. stderr (snd (startup boto3 environ w))
         = stderr w @ ''[SERVER] Starting AWS MCP Server...'' # ''[SERVER] Initializing AWS clients...'' # ms"
  by (simp add: startup_def Let_def split: option.splits)

lemma list_tools_stdout: "stdout (snd (list_tools w)) = stdout w"
  by (simp add: list_tools_def)

lemma call_tool_stdout_same: "stdout (snd (call_tool X nm arguments w)) = stdout w"
  by (simp add: call_tool_stdout call_tool_try_stdout)

lemma run_call_tool_stdout: "stdout (snd (run_call_tool X nm arguments w)) = stdout w"
proof -
  obtain r w' where h: "call_tool X nm arguments w = (r, w')" by (cases "call_tool X nm arguments w")
  then have "stdout w' = stdout w" using call_tool_stdout_same [of X nm arguments w] by simp
  with h show ?thesis by (cases r) (simp_all add: run_call_tool_def)
qed

lemma app_call_tool_stdout: "stdout (snd (app_call_tool X nm arguments w)) = stdout w"
  by (simp add: app_call_tool_def run_call_tool_stdout split: option.splits)

lemma handle_request_stdout: "stdout (snd (handle_request X r w)) = stdout w"
  by (cases r) (simp_all add: list_tools_def app_call_tool_stdout)

lemma serve_stdout: "stdout (snd (serve X rs w)) = stdout w"
proof (induction rs arbitrary: w)
  case Nil
  show ?case by simp
next
  case (Cons r rs)
  obtain resp w' where h: "handle_request X r w = (resp, w')" by (cases "handle_request X r w")
  then have "stdout w' = stdout w" using handle_request_stdout [of X r w] by simp
  moreover have "stdout (snd (serve X (r # rs) w)) = stdout (snd (serve X rs w'))"
    using h by (simp split: prod.splits)
  ultimately show ?case using Cons.IH [of w'] by simp
qed

lemma main_stdout: "stdout (snd (main X requests transport w)) = stdout w"
proof -
  let ?w = "log ''stdio server started, running app...'' (log ''Starting stdio server...'' w)"
  obtain resps w3 where h: "serve X requests ?w = (resps, w3)" by (cases "serve X requests ?w")
  then have "stdout w3 = stdout w" using serve_stdout [of X requests ?w] by simp
  with h show ?thesis by (simp add: main_def Let_def split: option.splits)
qed

lemma server_process_stdout:
  "stdout (snd (server_process boto3 environ X requests transport w)) = stdout w"
proof (cases "startup boto3 environ w")
  case (Pair r w1)
  then have w1: "stdout w1 = stdout w" using startup_stdout [of boto3 environ w] by simp
  show ?thesis
  proof (cases r)
    case (Inl code)
    with Pair w1 show ?thesis by (simp add: server_process_def)
  next
    case (Inr clients)
    let ?w = "log ''Running asyncio.run(main())...'' w1"
    obtain o1 resps w2 where m: "main X requests transport ?w = ((o1, resps), w2)"
      by (cases "main X requests transport ?w") auto
    then have "stdout w2 = stdout w" using main_stdout [of X requests transport ?w] w1 by simp
    with Pair Inr m show ?thesis by (simp add: server_process_def split: option.splits)
  qed
qed

lemma startup_failure:
  assumes "boto3 s3_client \<noteq> None \<or> boto3 dynamodb \<noteq> None"
  shows "fst (startup boto3 environ w) = Inl 1"
  using assms by (auto simp: startup_def Let_def split: option.splits)

lemma startup_calls: "calls (snd (startup boto3 environ w)) = calls w"
  by (simp add: startup_def Let_def split: option.splits)

lemma startup_bstate: "bstate (snd (startup boto3 environ w)) = bstate w"
  by (simp add: startup_def Let_def split: option.splits)

lemma handle_list_tools: "fst (handle_request X ListToolsRequest w) = ListToolsResult tools"
  by (simp add: list_tools_def)

lemma serve_Cons:
  "fst (serve X (r # rs) w)
     = fst (handle_request X r w) # fst (serve X rs (snd (handle_request X r w)))"
  by (simp split: prod.splits)

lemma serve_length: "length (fst (serve X rs w)) = length rs"
  by (induction rs arbitrary: w) (simp_all add: serve_Cons del: serve.simps(2))

lemma serve_list_tools:
  "i < length rs \<Longrightarrow> rs ! i = ListToolsRequest \<Longrightarrow> fst (serve X rs w) ! i = ListToolsResult tools"
proof (induction rs arbitrary: i w)
  case Nil
  then show ?case by simp
next
  case (Cons r rs)
  show ?case
  proof (cases i)
    case 0
    with Cons.prems show ?thesis by (simp add: serve_Cons handle_list_tools del: serve.simps handle_request.simps)
  next
    case (Suc j)
    with Cons.prems Cons.IH [of j "snd (handle_request X r w)"] show ?thesis
      by (simp add: serve_Cons del: serve.simps handle_request.simps)
  qed
qed

lemma failed_stdout [simp]: "stdout (snd (failed prefix e w)) = stdout w"
  by (simp add: failed_def Let_def)

lemma strands_handlers_stdout:
  "stdout (snd (strands_list_s3_buckets X w)) = stdout w"
  "stdout (snd (strands_get_s3_object X bucket key w)) = stdout w"
  "stdout (snd (strands_put_s3_object X bucket key content w)) = stdout w"
  "stdout (snd (strands_list_dynamodb_tables X w)) = stdout w"
  "stdout (snd (strands_query_dynamodb X table_name key v w)) = stdout w"
  "stdout (snd (strands_put_dynamodb_item X table_name item_json w)) = stdout w"
  by (simp_all add: strands_list_s3_buckets_def strands_get_s3_object_def
      strands_put_s3_object_def strands_list_dynamodb_tables_def strands_query_dynamodb_def
      strands_put_dynamodb_item_def invoke_def Let_def split: prod.splits sum.splits)

lemma is_digit_digit_char: "d < 10 \<Longrightarrow> is_digit (digit_char d)"
  by (simp add: is_digit_def digit_char_def)

lemma digit_val_digit_char: "d < 10 \<Longrightarrow> (of_char (digit_char d) :: nat) - 48 = d"
  by (simp add: digit_char_def)

lemma str_nat_digits: "\<forall>c \<in> set (str_nat n). is_digit c"
proof (induction n rule: str_nat.induct)
  case (1 n)
  show ?case
  proof (cases "n < 10")
    case True
    then show ?thesis by (subst str_nat.simps) (simp add: is_digit_digit_char)
  next
    case False
    with 1 show ?thesis by (subst str_nat.simps) (simp add: is_digit_digit_char)
  qed
qed

lemma nat_of_digits_snoc: "nat_of_digits (ds @ [c]) = 10 * nat_of_digits ds + (of_char c - 48)"
  by (simp add: nat_of_digits_def)

lemma nat_of_digits_str_nat: "nat_of_digits (str_nat n) = n"
proof (induction n rule: str_nat.induct)
  case (1 n)
  show ?case
  proof (cases "n < 10")
    case True
    then show ?thesis
      by (subst str_nat.simps) (simp add: nat_of_digits_def digit_val_digit_char)
  next
    case False
    with 1 show ?thesis
      by (subst str_nat.simps) (simp add: nat_of_digits_snoc digit_val_digit_char)
  qed
qed

lemma takeWhile_digits:
  assumes "\<forall>c \<in> set ds. is_digit c" and "\<not> is_digit x"
  shows "takeWhile is_digit (ds @ x # rest) = ds"
  using assms by (simp add: takeWhile_append2)

lemma dropWhile_until:
  assumes "\<forall>c \<in> set pre. c \<noteq> x"
  shows "dropWhile (\<lambda>c. c \<noteq> x) (pre @ x # rest) = x # rest"
  using assms by (induction pre) auto

lemma str_nat_no_paren: "\<forall>c \<in> set (str_nat n). c \<noteq> CHR '')''"
  using str_nat_digits [of n] by (auto simp: is_digit_def)

lemma embedded_count_strands:
  "embedded_count (''S3 Buckets ('' @ str_nat n @ ''): '' @ body) = n"
proof -
  have "\<not> is_digit (CHR '')'')" by (simp add: is_digit_def)
  then have "takeWhile is_digit (str_nat n @ CHR '')'' # '': '' @ body) = str_nat n"
    using str_nat_digits by (rule takeWhile_digits [rotated])
  then show ?thesis by (simp add: embedded_count_def nat_of_digits_str_nat)
qed

lemma embedded_count_local:
  "embedded_count (''S3 Buckets ('' @ str_nat n @ '' total):'' @ body) = n"
proof -
  have "\<not> is_digit (CHR '' '')" by (simp add: is_digit_def)
  then have "takeWhile is_digit (str_nat n @ CHR '' '' # ''total):'' @ body) = str_nat n"
    using str_nat_digits by (rule takeWhile_digits [rotated])
  then show ?thesis by (simp add: embedded_count_def nat_of_digits_str_nat)
qed

lemma listing_strands: "listing (''S3 Buckets ('' @ str_nat n @ ''): '' @ body) = body"
proof -
  have "\<forall>c \<in> set (''S3 Buckets ('' @ str_nat n). c \<noteq> CHR '')''"
    using str_nat_no_paren [of n] by auto
  from dropWhile_until [OF this, of "'': '' @ body"] show ?thesis by (simp add: listing_def)
qed

lemma listing_local:
  "listing (''S3 Buckets ('' @ str_nat n @ '' total):'' @ [CHR 0x0A] @ body) = body"
proof -
  have "\<forall>c \<in> set (''S3 Buckets ('' @ str_nat n @ '' total''). c \<noteq> CHR '')''"
    using str_nat_no_paren [of n] by auto
  from dropWhile_until [OF this, of "CHR '':'' # CHR 0x0A # body"] show ?thesis
    by (simp add: listing_def)
qed

lemma split_acc_piece:
  assumes "sep \<noteq> []" and "hd sep \<notin> set x"
  shows "split_acc sep cur (x @ rest) = split_acc sep (cur @ x) rest"
  using assms(2)
proof (induction x arbitrary: cur)
  case Nil
  show ?case by simp
next
  case (Cons c x)
  have "take (length sep) (c # x @ rest) \<noteq> sep"
  proof
    assume "take (length sep) (c # x @ rest) = sep"
    then have "hd sep = c" using assms(1) by (cases sep) auto
    with Cons.prems show False by simp
  qed
  with Cons show ?case by simp
qed

lemma split_acc_sep:
  assumes "sep \<noteq> []"
  shows "split_acc sep cur (sep @ rest) = cur # split_acc sep [] rest"
  using assms by (cases sep) simp_all

lemma split_acc_join:
  assumes "sep \<noteq> []" and "xs \<noteq> []" and "\<forall>x \<in> set xs. hd sep \<notin> set x"
  shows "split_acc sep cur (join sep xs) = (cur @ hd xs) # tl xs"
  using assms
proof (induction sep xs arbitrary: cur rule: join.induct)
  case (1 sep)
  then show ?case by simp
next
  case (2 sep x)
  then show ?case using split_acc_piece [of sep x cur "[]"] by simp
next
  case (3 sep x y ys)
  have "split_acc sep cur (x @ sep @ join sep (y # ys)) = split_acc sep (cur @ x) (sep @ join sep (y # ys))"
    using "3.prems" split_acc_piece [of sep x] by simp
  also have "\<dots> = (cur @ x) # split_acc sep [] (join sep (y # ys))"
    using "3.prems" by (simp add: split_acc_sep)
  also have "\<dots> = (cur @ x) # y # ys" using 3 by simp
  finally show ?case by simp
qed


lemma join_nonempty: "xs \<noteq> [] \<Longrightarrow> hd xs \<noteq> [] \<Longrightarrow> join sep xs \<noteq> []"
  by (induction sep xs rule: join.induct) simp_all

lemma listed_names_join:
  assumes "\<forall>n \<in> set names. n \<noteq> [] \<and> CHR '','' \<notin> set n"
    and "listing s = join '', '' names"
  shows "listed_names s = names"
proof (cases names)
  case Nil
  with assms(2) show ?thesis by (simp add: listed_names_def)
next
  case (Cons n ns)
  with assms(1) have "join '', '' names \<noteq> []" by (intro join_nonempty) simp_all
  moreover have "split_acc '', '' [] (join '', '' names) = ([] @ hd names) # tl names"
    using assms(1) Cons by (intro split_acc_join) simp_all
  ultimately show ?thesis using assms(2) Cons by (simp add: listed_names_def)
qed

lemma listed_lines_join:
  assumes "\<forall>n \<in> set names. CHR 0x0A \<notin> set n"
    and "listing s = join [CHR 0x0A] (map (\<lambda>b. ''  - '' @ b) names)"
  shows "listed_lines s = names"
proof (cases names)
  case Nil
  with assms(2) show ?thesis by (simp add: listed_lines_def)
next
  case (Cons n ns)
  let ?ls = "map (\<lambda>b. ''  - '' @ b) names"
  have "join [CHR 0x0A] ?ls \<noteq> []" using Cons by (intro join_nonempty) simp_all
  moreover have "split_acc [CHR 0x0A] [] (join [CHR 0x0A] ?ls) = ([] @ hd ?ls) # tl ?ls"
    using assms(1) Cons by (intro split_acc_join) auto
  moreover have "map (drop (length ''  - '')) (hd ?ls # tl ?ls) = names"
    using Cons by (simp add: comp_def)
  ultimately show ?thesis using assms(2) by (simp add: listed_lines_def)
qed

lemma names_of_names:
  "map (\<lambda>b. b ''Name'') bs = map Some names \<Longrightarrow> names_of bs = Inr names"
  by (induction bs arbitrary: names) auto

lemma bucket_names_names:
  "response ''Buckets'' = Some bs \<Longrightarrow> map (\<lambda>b. b ''Name'') bs = map Some names
     \<Longrightarrow> bucket_names response = Inr names"
  by (simp add: bucket_names_def names_of_names)

lemma strands_list_s3_buckets_text:
  assumes "fst (list_buckets X (bstate w)) = Inr response" and "bucket_names response = Inr names"
  shows "fst (strands_list_s3_buckets X w)
           = ''S3 Buckets ('' @ str_nat (length names) @ ''): '' @ join '', '' names"
  using assms
  by (cases "list_buckets X (bstate w)") (simp add: strands_list_s3_buckets_def invoke_def)

lemma local_list_s3_buckets_text:
  assumes "fst (list_buckets X (bstate w)) = Inr response" and "bucket_names response = Inr names"
  shows "fst (local_list_s3_buckets X w)
           = Inr (''S3 Buckets ('' @ str_nat (length names) @ '' total):'' @ [CHR 0x0A]
                   @ join [CHR 0x0A] (map (\<lambda>b. ''  - '' @ b) names))"
  using assms
  by (cases "list_buckets X (bstate w)")
    (simp add: local_list_s3_buckets_def invoke_def, rule arg_cong [where f = "join _"], simp)

lemma call_tool_list_s3_buckets_text:
  assumes "fst (list_buckets X (bstate w)) = Inr response" and "bucket_names response = Inr names"
  shows "fst (call_tool X ''list_s3_buckets'' arguments w)
           = Inr [TextContent ''text'' (''S3 Buckets: '' @ join '', '' names)]"
  using assms
  by (cases "list_buckets X (bstate w)") (simp add: call_tool_fst try_list_s3_buckets invoke_def)

lemma find_tool_unknown: "nm \<notin> set (map name tools) \<Longrightarrow> find (\<lambda>t. name t = nm) tools = None"
  by (auto simp: find_None_iff)

lemma find_tool_known:
  assumes "t \<in> set tools"
  shows "find (\<lambda>t'. name t' = name t) tools = Some t"
proof -
  from assms have "t = tools ! 0 \<or> t = tools ! 1 \<or> t = tools ! 2"
    by (simp add: tools_def)
  then show ?thesis by (elim disjE) (simp_all add: tools_def)
qed

lemma run_call_tool_unknown:
  assumes "nm \<notin> set (map name tools)"
  shows "fst (run_call_tool X nm arguments w)
           = CallToolResult [TextContent ''text'' (''Unknown tool: '' @ nm)] True"
    and "calls (snd (run_call_tool X nm arguments w)) = calls w"
    and "bstate (snd (run_call_tool X nm arguments w)) = bstate w"
  by (simp_all add: run_call_tool_def call_tool_def call_tool_try_unknown [OF assms]
      make_error_result_def ValueError_def)

lemma validate_missing:
  assumes "p \<in> set (required s)" and "arguments p = None"
  shows "\<exists>k. find (\<lambda>k. arguments k = None) (required s) = Some k
           \<and> validate s arguments = Some ([CHR 0x27] @ k @ [CHR 0x27] @ '' is a required property'')"
proof (cases "find (\<lambda>k. arguments k = None) (required s)")
  case None
  with assms show ?thesis by (auto simp: find_None_iff)
next
  case (Some k)
  then show ?thesis by (simp add: validate_def)
qed

lemma register_from:
  "distinct (map fst r @ map fn_name fns)
     \<Longrightarrow> foldl (\<lambda>r fn. mcp_tool fn r) r fns = r @ map (\<lambda>fn. (fn_name fn, fn)) fns"
proof (induction fns arbitrary: r)
  case Nil
  show ?case by simp
next
  case (Cons fn fns)
  from Cons.prems have "fn_name fn \<notin> fst ` set r" by auto
  then have "map_of r (fn_name fn) = None" by (simp add: map_of_eq_None_iff)
  then have step: "mcp_tool fn r = r @ [(fn_name fn, fn)]" by (simp add: mcp_tool_def)
  from Cons.prems have "distinct (map fst (r @ [(fn_name fn, fn)]) @ map fn_name fns)" by auto
  from Cons.IH [OF this] step show ?case by simp
qed

lemma mcp_list_register_all:
  "distinct (map fn_name fns) \<Longrightarrow> mcp_list_tools (register_all fns) = fns"
  using register_from [of "[]" fns] by (simp add: mcp_list_tools_def register_all_def comp_def)

lemma query_dynamodb_cases:
  "fst (strands_query_dynamodb X table_name key v w) =
     (case fst (get_item X table_name key v (bstate w)) of
        Inl e \<Rightarrow> ''Error querying DynamoDB: '' @ exn_str e
      | Inr response \<Rightarrow>
          (case response ''Item'' of
             None \<Rightarrow> ''No item found with '' @ key @ ''='' @ v
           | Some item \<Rightarrow>
               if item = [] then ''No item found with '' @ key @ ''='' @ v
               else ''Found item: '' @ str_item X item))"
  "fst (local_query_dynamodb X table_name key v w)
       = fst (strands_query_dynamodb X table_name key v w)"
  by (cases "get_item X table_name key v (bstate w)";
      simp add: strands_query_dynamodb_def local_query_dynamodb_def invoke_def failed_def
        get_Item_def Let_def split: sum.splits option.splits)+

section \<open>The claims\<close>

subsection \<open>Unknown tool names\<close>

text \<open>
  Claim C3, as the code has it. For every tool call whose name is none of the names
  \<open>list_tools\<close> announces, \<open>call_tool\<close> runs no branch of a tool and no backend
  operation and raises \<open>ValueError("Unknown tool: <name>")\<close>; the server answers the
  request with a tool result marked \<open>isError\<close> whose single text block is
  \<open>Unknown tool: <name>\<close>. The record of backend calls and the backend state are what
  they were.
\<close>

theorem unknown_tool:
  assumes "nm \<notin> set (map name tools)"
  shows "fst (call_tool X nm arguments w) = Inl (ValueError (''Unknown tool: '' @ nm))
       \<and> calls (snd (call_tool X nm arguments w)) = calls w
       \<and> bstate (snd (call_tool X nm arguments w)) = bstate w
       \<and> fst (handle_request X (CallToolRequest nm arguments) w)
           = CallToolResult [TextContent ''text'' (''Unknown tool: '' @ nm)] True
       \<and> calls (snd (handle_request X (CallToolRequest nm arguments) w)) = calls w
       \<and> bstate (snd (handle_request X (CallToolRequest nm arguments) w)) = bstate w"
  using run_call_tool_unknown [OF assms, of X arguments w]
  by (simp add: call_tool_def call_tool_try_unknown [OF assms] app_call_tool_def
      find_tool_unknown [OF assms])

text \<open>
  Claim C3 as stated fails: the call for an unknown tool does not end in a
  protocol-level error. The exception of \<open>call_tool\<close> is answered with a tool result,
  marked \<open>isError\<close>.
\<close>

theorem unknown_tool_counterexample:
  "fst (handle_request demo (CallToolRequest ''delete_bucket'' Map.empty) w0)
     = CallToolResult [TextContent ''text'' ''Unknown tool: delete_bucket''] True"
  by (simp add: app_call_tool_def run_call_tool_def call_tool_def call_tool_try_def tools_def
      make_error_result_def ValueError_def)

theorem unknown_tool_witness:
  "''delete_bucket'' \<notin> set (map name tools)
   \<and> fst (call_tool demo ''delete_bucket'' Map.empty w0) = Inl (Exn ''ValueError'' ''Unknown tool: delete_bucket'')
   \<and> calls (snd (call_tool demo ''delete_bucket'' Map.empty w0)) = []
   \<and> bstate (snd (call_tool demo ''delete_bucket'' Map.empty w0)) = 0
   \<and> isError (fst (handle_request demo (CallToolRequest ''delete_bucket'' Map.empty) w0))
   \<and> calls (snd (handle_request demo (CallToolRequest ''delete_bucket'' Map.empty) w0)) = []"
proof -
  have h: "''delete_bucket'' \<notin> set (map name tools)" by (simp add: names_tools)
  show ?thesis using h unknown_tool [OF h, of demo Map.empty w0]
    by (simp add: ValueError_def w0_def)
qed

subsection \<open>Missing arguments\<close>

text \<open>
  Claim C2, as the code has it. For every announced tool and every call that omits
  one of the parameters the tool's \<open>inputSchema\<close> marks required, the server answers
  with the schema-validation failure as a tool result marked \<open>isError\<close>, whose single
  text block is \<open>Input validation error\<close> and the first required parameter that is
  missing. \<open>call_tool\<close> is not entered: nothing is logged, no backend operation is
  invoked, and the process and the backend are as they were.
\<close>

theorem missing_required:
  assumes "t \<in> set tools" and "p \<in> set (required (inputSchema t))" and "arguments p = None"
  shows "\<exists>k. find (\<lambda>k. arguments k = None) (required (inputSchema t)) = Some k
           \<and> handle_request X (CallToolRequest (name t) arguments) w
               = (CallToolResult
                    [TextContent ''text''
                       (''Input validation error: '' @ [CHR 0x27] @ k @ [CHR 0x27]
                          @ '' is a required property'')] True, w)"
proof -
  from validate_missing [of p "inputSchema t" arguments] assms(2,3) obtain k where
    k: "find (\<lambda>k. arguments k = None) (required (inputSchema t)) = Some k"
    and v: "validate (inputSchema t) arguments
              = Some ([CHR 0x27] @ k @ [CHR 0x27] @ '' is a required property'')"
    by blast
  have "handle_request X (CallToolRequest (name t) arguments) w
          = (CallToolResult
               [TextContent ''text''
                  (''Input validation error: '' @ [CHR 0x27] @ k @ [CHR 0x27]
                     @ '' is a required property'')] True, w)"
    by (simp add: app_call_tool_def find_tool_known [OF assms(1)] v make_error_result_def)
  with k show ?thesis by blast
qed

text \<open>
  Claim C2 as stated fails: \<open>get_s3_object\<close> called with no arguments is not answered
  with a protocol-level error. The answer is a tool result, marked \<open>isError\<close>.
\<close>

theorem missing_required_counterexample:
  "handle_request demo (CallToolRequest ''get_s3_object'' Map.empty) w0 =
     (CallToolResult
        [TextContent ''text''
           (''Input validation error: '' @ [CHR 0x27] @ ''bucket'' @ [CHR 0x27]
              @ '' is a required property'')] True, w0)"
  by (simp add: app_call_tool_def tools_def validate_def make_error_result_def)

theorem missing_required_witness:
  "tools ! 1 \<in> set tools
   \<and> ''key'' \<in> set (required (inputSchema (tools ! 1)))
   \<and> [''bucket'' \<mapsto> ''alpha''] ''key'' = None
   \<and> handle_request demo (CallToolRequest ''get_s3_object'' [''bucket'' \<mapsto> ''alpha'']) w0
       = (CallToolResult
            [TextContent ''text''
               (''Input validation error: '' @ [CHR 0x27] @ ''key'' @ [CHR 0x27]
                  @ '' is a required property'')] True, w0)"
proof -
  have n: "name (tools ! 1) = ''get_s3_object''"
    "required (inputSchema (tools ! 1)) = [''bucket'', ''key'']"
    by (simp_all add: tools_def)
  have h: "tools ! 1 \<in> set tools" "''key'' \<in> set (required (inputSchema (tools ! 1)))"
    "[''bucket'' \<mapsto> ''alpha''] ''key'' = None"
    unfolding n by (simp_all add: tools_def)
  have f: "find (\<lambda>k. [''bucket'' \<mapsto> ''alpha''] k = None) [''bucket'', ''key''] = Some ''key''"
    by simp
  from missing_required [of "tools ! 1" "''key''" "[''bucket'' \<mapsto> ''alpha'']" demo w0, OF h]
  have "handle_request demo (CallToolRequest ''get_s3_object'' [''bucket'' \<mapsto> ''alpha'']) w0
       = (CallToolResult
            [TextContent ''text''
               (''Input validation error: '' @ [CHR 0x27] @ ''key'' @ [CHR 0x27]
                  @ '' is a required property'')] True, w0)"
    unfolding n f by simp
  with h show ?thesis by simp
qed

subsection \<open>Failures of the backend\<close>

text \<open>
  Claim C1, as the code has it. The branches \<open>get_s3_object\<close> and
  \<open>query_dynamodb\<close> of \<open>call_tool\<close> wrap their backend call in a \<open>try\<close> of their own:
  when the arguments are present and the backend operation raises \<open>e\<close>, \<open>call_tool\<close>
  returns exactly one text content block, \<open>"Error: " + str(e)\<close>, as its ordinary
  return value (the returned list has no error flag). Likewise \<open>get_s3_object\<close> of the
  FastMCP server returns the string \<open>"Error getting S3 object: " + str(e)\<close>.
\<close>

theorem handler_failure_as_text:
  "(\<forall>b k e. arguments ''bucket'' = Some b \<and> arguments ''key'' = Some k
        \<and> fst (get_object X b k (bstate w)) = Inl e
      \<longrightarrow> fst (call_tool X ''get_s3_object'' arguments w)
            = Inr [TextContent ''text'' (''Error: '' @ exn_str e)])
   \<and> (\<forall>t k v e. arguments ''table_name'' = Some t \<and> arguments ''key'' = Some k
        \<and> arguments ''value'' = Some v \<and> fst (get_item X t k v (bstate w)) = Inl e
      \<longrightarrow> fst (call_tool X ''query_dynamodb'' arguments w)
            = Inr [TextContent ''text'' (''Error: '' @ exn_str e)])
   \<and> (\<forall>e. fst (get_object X bucket key (bstate w)) = Inl e
      \<longrightarrow> fst (strands_get_s3_object X bucket key w) = ''Error getting S3 object: '' @ exn_str e)"
proof (intro conjI allI impI; (elim conjE)?)
  fix b k e
  assume "arguments ''bucket'' = Some b" "arguments ''key'' = Some k"
    "fst (get_object X b k (bstate w)) = Inl e"
  then show "fst (call_tool X ''get_s3_object'' arguments w)
            = Inr [TextContent ''text'' (''Error: '' @ exn_str e)]"
    by (rule get_s3_object_failure)
next
  fix t k v e
  assume "arguments ''table_name'' = Some t" "arguments ''key'' = Some k"
    "arguments ''value'' = Some v" "fst (get_item X t k v (bstate w)) = Inl e"
  then show "fst (call_tool X ''query_dynamodb'' arguments w)
            = Inr [TextContent ''text'' (''Error: '' @ exn_str e)]"
    by (rule query_dynamodb_failure)
next
  fix e
  assume "fst (get_object X bucket key (bstate w)) = Inl e"
  then show "fst (strands_get_s3_object X bucket key w) = ''Error getting S3 object: '' @ exn_str e"
    by (rule strands_get_s3_object_failure)
qed


text \<open>
  Claim C1 as stated fails. A backend failure of \<open>list_s3_buckets\<close> is not turned
  into a result: \<open>call_tool\<close> raises the exception again, to its caller. And where a
  failure is caught, the result carries no error mark: it is the same value a successful
  read of an object with that text returns.
\<close>

theorem handler_failure_counterexample:
  "fst (call_tool demo_down ''list_s3_buckets'' Map.empty w0) = Inl (Exn ''ClientError'' ''AccessDenied'')
   \<and> fst (call_tool demo ''get_s3_object'' [''bucket'' \<mapsto> ''alpha'', ''key'' \<mapsto> ''nope''] w0)
       = Inr [TextContent ''text'' ''Error: The specified key does not exist.'']
   \<and> fst (call_tool demo_echo ''get_s3_object'' [''bucket'' \<mapsto> ''alpha'', ''key'' \<mapsto> ''nope''] w0)
       = Inr [TextContent ''text'' ''Error: The specified key does not exist.'']"
  by (simp add: call_tool_fst try_list_s3_buckets try_get_s3_object invoke_def demo_down_def demo_echo_def demo_def w0_def)

theorem handler_failure_as_text_witness:
  "fst (get_object demo ''alpha'' ''nope'' (bstate w0)) = Inl (Exn ''NoSuchKey'' ''The specified key does not exist.'')
   \<and> fst (call_tool demo ''get_s3_object'' [''bucket'' \<mapsto> ''alpha'', ''key'' \<mapsto> ''nope''] w0)
       = Inr [TextContent ''text'' ''Error: The specified key does not exist.'']
   \<and> fst (get_item demo ''orders'' ''id'' ''7'' (bstate w0))
       = Inl (Exn ''ResourceNotFoundException'' ''Requested resource not found'')
   \<and> fst (call_tool demo ''query_dynamodb''
              [''table_name'' \<mapsto> ''orders'', ''key'' \<mapsto> ''id'', ''value'' \<mapsto> ''7''] w0)
       = Inr [TextContent ''text'' ''Error: Requested resource not found'']
   \<and> fst (strands_get_s3_object demo ''alpha'' ''nope'' w0)
       = ''Error getting S3 object: The specified key does not exist.''"
proof -
  let ?a1 = "[''bucket'' \<mapsto> ''alpha'', ''key'' \<mapsto> ''nope'']"
  let ?a2 = "[''table_name'' \<mapsto> ''orders'', ''key'' \<mapsto> ''id'', ''value'' \<mapsto> ''7'']"
  have g: "fst (get_object demo ''alpha'' ''nope'' (bstate w0))
             = Inl (Exn ''NoSuchKey'' ''The specified key does not exist.'')"
    by (simp add: demo_def)
  have i: "fst (get_item demo ''orders'' ''id'' ''7'' (bstate w0))
             = Inl (Exn ''ResourceNotFoundException'' ''Requested resource not found'')"
    by (simp add: demo_def)
  have a1: "?a1 ''bucket'' = Some ''alpha''" "?a1 ''key'' = Some ''nope''" by simp_all
  have a2: "?a2 ''table_name'' = Some ''orders''" "?a2 ''key'' = Some ''id''"
    "?a2 ''value'' = Some ''7''" by simp_all
  note t1 = handler_failure_as_text [of ?a1 demo w0 "''alpha''" "''nope''"]
  note t2 = handler_failure_as_text [of ?a2 demo w0 "''alpha''" "''nope''"]
  have "fst (call_tool demo ''get_s3_object'' ?a1 w0)
          = Inr [TextContent ''text'' (''Error: '' @ exn_str (Exn ''NoSuchKey'' ''The specified key does not exist.''))]"
    using t1 [THEN conjunct1, rule_format, of "''alpha''" "''nope''"] a1 g by blast
  moreover have "fst (call_tool demo ''query_dynamodb'' ?a2 w0)
          = Inr [TextContent ''text'' (''Error: '' @ exn_str (Exn ''ResourceNotFoundException'' ''Requested resource not found''))]"
    using t2 [THEN conjunct2, THEN conjunct1, rule_format, of "''orders''" "''id''" "''7''"] a2 i by blast
  moreover have "fst (strands_get_s3_object demo ''alpha'' ''nope'' w0)
          = ''Error getting S3 object: '' @ exn_str (Exn ''NoSuchKey'' ''The specified key does not exist.'')"
    using t1 [THEN conjunct2, THEN conjunct2, rule_format] g by blast
  ultimately show ?thesis using g i by simp
qed

subsection \<open>Diagnostics\<close>

text \<open>
  Claim C6. The stdio server never writes to standard output: module start,
  \<open>list_tools\<close>, \<open>call_tool\<close> and the whole run of the process, whatever the
  requests and the backend, leave standard output as it was. Their diagnostics are
  appended to the error stream, each through \<open>log\<close>. The handlers of the FastMCP
  stdio server leave standard output alone as well.
\<close>

theorem diagnostics_to_stderr:
  "stdout (snd (startup boto3 environ w)) = stdout w
   \<and> stdout (snd (list_tools w)) = stdout w
   \<and> stdout (snd (call_tool X nm arguments w)) = stdout w
   \<and> stdout (snd (server_process boto3 environ X requests transport w)) = stdout w
   \<and> (\<exists>ms. stderr (snd (startup boto3 environ w))
          = stderr w @ ''[SERVER] Starting AWS MCP Server...''
              # ''[SERVER] Initializing AWS clients...'' # ms)
   \<and> stderr (snd (list_tools w)) = stderr w @ [''[SERVER] list_tools called'']
   \<and> (\<exists>ms. stderr (snd (call_tool X nm arguments w))
          = stderr w @ (''[SERVER] call_tool: '' @ nm @ '' with '' @ str_dict X arguments) # ms)
   \<and> stdout (snd (strands_list_s3_buckets X w)) = stdout w
   \<and> stdout (snd (strands_get_s3_object X bucket key w)) = stdout w
   \<and> stdout (snd (strands_put_s3_object X bucket key content w)) = stdout w
   \<and> stdout (snd (strands_list_dynamodb_tables X w)) = stdout w
   \<and> stdout (snd (strands_query_dynamodb X table_name key v w)) = stdout w
   \<and> stdout (snd (strands_put_dynamodb_item X table_name item_json w)) = stdout w"
  using startup_stdout [of boto3 environ w] list_tools_stdout [of w]
    call_tool_stdout_same [of X nm arguments w]
    server_process_stdout [of boto3 environ X requests transport w]
    startup_stderr [of boto3 environ w] call_tool_stderr [of X nm arguments w]
  by (simp add: list_tools_def strands_handlers_stdout)

theorem diagnostics_to_stderr_witness:
  "stdout (snd (server_process (\<lambda>c. None) Map.empty demo
       [ListToolsRequest, CallToolRequest ''get_s3_object'' Map.empty] None
       (w0\<lparr>stdout := [''frame'']\<rparr>))) = [''frame'']
   \<and> stderr (snd (list_tools w0)) = [''[SERVER] list_tools called'']"
  using diagnostics_to_stderr [of "\<lambda>c. None" Map.empty "w0\<lparr>stdout := [''frame'']\<rparr>" demo
      "''x''" Map.empty "[ListToolsRequest, CallToolRequest ''get_s3_object'' Map.empty]" None]
    diagnostics_to_stderr [of "\<lambda>c. None" Map.empty w0 demo "''x''" Map.empty "[]" None]
  by (simp add: w0_def)

subsection \<open>Failing initialisation\<close>

text \<open>
  Claim C7. If building the S3 client or the DynamoDB resource raises at module
  start, the stdio server exits with status 1: no request is served (there is no
  response) and the backend is never called.
\<close>

theorem init_failure_exits:
  assumes "boto3 s3_client \<noteq> None \<or> boto3 dynamodb \<noteq> None"
  shows "fst (startup boto3 environ w) = Inl 1
       \<and> fst (server_process boto3 environ X requests transport w) = (1, [])
       \<and> calls (snd (server_process boto3 environ X requests transport w)) = calls w
       \<and> bstate (snd (server_process boto3 environ X requests transport w)) = bstate w"
proof -
  obtain w1 where s: "startup boto3 environ w = (Inl 1, w1)"
    using startup_failure [OF assms, of environ w] by (cases "startup boto3 environ w") simp
  then have "calls w1 = calls w" "bstate w1 = bstate w"
    using startup_calls [of boto3 environ w] startup_bstate [of boto3 environ w] by simp_all
  with s show ?thesis by (simp add: server_process_def)
qed

theorem init_failure_exits_witness:
  "no_dynamodb dynamodb = Some (Exn ''UnknownServiceError'' ''Unknown service'')
   \<and> fst (startup no_dynamodb Map.empty w0) = Inl 1
   \<and> fst (server_process no_dynamodb Map.empty demo [ListToolsRequest] None w0) = (1, [])
   \<and> calls (snd (server_process no_dynamodb Map.empty demo [ListToolsRequest] None w0)) = []
   \<and> bstate (snd (server_process no_dynamodb Map.empty demo [ListToolsRequest] None w0)) = 0"
proof -
  have d: "no_dynamodb dynamodb = Some (Exn ''UnknownServiceError'' ''Unknown service'')"
    by (simp add: no_dynamodb_def dynamodb_def)
  then have h: "no_dynamodb s3_client \<noteq> None \<or> no_dynamodb dynamodb \<noteq> None" by simp
  show ?thesis
    using d init_failure_exits [OF h, of Map.empty w0 demo "[ListToolsRequest]" None]
    by (simp add: w0_def)
qed

subsection \<open>Discovery\<close>

text \<open>
  Claim C4. \<open>list_tools\<close> of the stdio server returns the three descriptors of
  the program text, each with its name, description and schema, in the order they are
  written, and the same sequence again on a repeated call; in every run of the request
  loop, whatever requests come before and whatever the backend does, each \<open>list_tools\<close>
  request is answered with that sequence. In the FastMCP server the six handlers are
  listed in the order their \<open>@mcp.tool()\<close> registrations run; and whatever functions are
  registered, under distinct names, they are listed in the order of registration.
\<close>

theorem list_tools_stable:
  "fst (list_tools w) =
     [\<lparr>name = ''list_s3_buckets'', description = ''List all S3 buckets'',
       inputSchema = \<lparr>schema_type = ''object'', properties = [], required = []\<rparr>\<rparr>,
      \<lparr>name = ''get_s3_object'', description = ''Get an object from S3'',
       inputSchema = \<lparr>schema_type = ''object'',
         properties = [(''bucket'', ''string''), (''key'', ''string'')],
         required = [''bucket'', ''key'']\<rparr>\<rparr>,
      \<lparr>name = ''query_dynamodb'', description = ''Query a DynamoDB table'',
       inputSchema = \<lparr>schema_type = ''object'',
         properties = [(''table_name'', ''string''), (''key'', ''string''), (''value'', ''string'')],
         required = [''table_name'', ''key'', ''value'']\<rparr>\<rparr>]
   \<and> distinct (map name (fst (list_tools w)))
   \<and> fst (list_tools (snd (list_tools w))) = fst (list_tools w)
   \<and> length (fst (serve X rs w)) = length rs
   \<and> (\<forall>i < length rs. rs ! i = ListToolsRequest
        \<longrightarrow> fst (serve X rs w) ! i = ListToolsResult (fst (list_tools w)))
   \<and> mcp_list_tools mcp =
     [\<lparr>fn_name = ''list_s3_buckets'', fn_doc = ''List all S3 buckets in your AWS account.'',
       fn_parameters = []\<rparr>,
      \<lparr>fn_name = ''get_s3_object'', fn_doc = ''Get an object from an S3 bucket.'',
       fn_parameters = [(''bucket'', ''str''), (''key'', ''str'')]\<rparr>,
      \<lparr>fn_name = ''put_s3_object'', fn_doc = ''Upload content to an S3 bucket.'',
       fn_parameters = [(''bucket'', ''str''), (''key'', ''str''), (''content'', ''str'')]\<rparr>,
      \<lparr>fn_name = ''list_dynamodb_tables'',
       fn_doc = ''List all DynamoDB tables in your AWS account.'', fn_parameters = []\<rparr>,
      \<lparr>fn_name = ''query_dynamodb'', fn_doc = ''Query a DynamoDB table by partition key.'',
       fn_parameters = [(''table_name'', ''str''), (''key'', ''str''), (''value'', ''str'')]\<rparr>,
      \<lparr>fn_name = ''put_dynamodb_item'', fn_doc = ''Put an item into a DynamoDB table.'',
       fn_parameters = [(''table_name'', ''str''), (''item_json'', ''str'')]\<rparr>]
   \<and> (\<forall>fns. distinct (map fn_name fns) \<longrightarrow> mcp_list_tools (register_all fns) = fns)"
proof -
  have a: "fst (list_tools w) = tools" by (simp add: list_tools_def)
  have b: "distinct (map name tools)" by (simp add: names_tools)
  have c: "fst (list_tools (snd (list_tools w))) = tools" by (simp add: list_tools_def)
  have d: "\<forall>i < length rs. rs ! i = ListToolsRequest
        \<longrightarrow> fst (serve X rs w) ! i = ListToolsResult tools"
    by (simp add: serve_list_tools)
  have e: "\<forall>fns. distinct (map fn_name fns) \<longrightarrow> mcp_list_tools (register_all fns) = fns"
    by (simp add: mcp_list_register_all)
  have f: "mcp_list_tools mcp =
     [\<lparr>fn_name = ''list_s3_buckets'', fn_doc = ''List all S3 buckets in your AWS account.'',
       fn_parameters = []\<rparr>,
      \<lparr>fn_name = ''get_s3_object'', fn_doc = ''Get an object from an S3 bucket.'',
       fn_parameters = [(''bucket'', ''str''), (''key'', ''str'')]\<rparr>,
      \<lparr>fn_name = ''put_s3_object'', fn_doc = ''Upload content to an S3 bucket.'',
       fn_parameters = [(''bucket'', ''str''), (''key'', ''str''), (''content'', ''str'')]\<rparr>,
      \<lparr>fn_name = ''list_dynamodb_tables'',
       fn_doc = ''List all DynamoDB tables in your AWS account.'', fn_parameters = []\<rparr>,
      \<lparr>fn_name = ''query_dynamodb'', fn_doc = ''Query a DynamoDB table by partition key.'',
       fn_parameters = [(''table_name'', ''str''), (''key'', ''str''), (''value'', ''str'')]\<rparr>,
      \<lparr>fn_name = ''put_dynamodb_item'', fn_doc = ''Put an item into a DynamoDB table.'',
       fn_parameters = [(''table_name'', ''str''), (''item_json'', ''str'')]\<rparr>]"
    unfolding mcp_def by (rule mcp_list_register_all) simp
  show ?thesis
    unfolding a c using b d e f by (simp add: serve_length tools_def)
qed

theorem list_tools_stable_witness:
  "[ListToolsRequest, CallToolRequest ''list_s3_buckets'' Map.empty, ListToolsRequest] ! 2 = ListToolsRequest
   \<and> fst (serve demo [ListToolsRequest, CallToolRequest ''list_s3_buckets'' Map.empty, ListToolsRequest] w0) ! 2
       = ListToolsResult (fst (list_tools w0))
   \<and> fst (serve demo [ListToolsRequest, CallToolRequest ''list_s3_buckets'' Map.empty, ListToolsRequest] w0) ! 0
       = ListToolsResult (fst (list_tools w0))
   \<and> map fn_name (mcp_list_tools (register_all
         [\<lparr>fn_name = ''ping'', fn_doc = ''Answer pong.'', fn_parameters = []\<rparr>,
          \<lparr>fn_name = ''echo'', fn_doc = ''Repeat msg.'', fn_parameters = [(''msg'', ''str'')]\<rparr>]))
       = [''ping'', ''echo'']"
proof -
  let ?rs = "[ListToolsRequest, CallToolRequest ''list_s3_buckets'' Map.empty, ListToolsRequest]"
  let ?fns = "[\<lparr>fn_name = ''ping'', fn_doc = ''Answer pong.'', fn_parameters = []\<rparr>,
          \<lparr>fn_name = ''echo'', fn_doc = ''Repeat msg.'', fn_parameters = [(''msg'', ''str'')]\<rparr>]"
  note all = list_tools_stable [of w0 demo ?rs]
  note t = all [THEN conjunct2, THEN conjunct2, THEN conjunct2, THEN conjunct2, THEN conjunct1,
      rule_format]
  note u = all [THEN conjunct2, THEN conjunct2, THEN conjunct2, THEN conjunct2, THEN conjunct2,
      THEN conjunct2, rule_format]
  have "fst (serve demo ?rs w0) ! 2 = ListToolsResult (fst (list_tools w0))" by (rule t) simp_all
  moreover have "fst (serve demo ?rs w0) ! 0 = ListToolsResult (fst (list_tools w0))" by (rule t) simp_all
  moreover have "mcp_list_tools (register_all ?fns) = ?fns" by (rule u) simp
  ultimately show ?thesis by simp
qed

subsection \<open>Region of the backend clients\<close>

text \<open>
  Claim C5 at a failing input. With \<open>AWS_DEFAULT_REGION=eu-west-1\<close> in the
  environment, the stdio server still builds both clients with the region
  \<open>us-east-1\<close> of the program text, while the session of the HTTP server takes
  \<open>eu-west-1\<close> from the environment.
\<close>

theorem region_is_fixed:
  "fst (startup (\<lambda>c. None) [''AWS_DEFAULT_REGION'' \<mapsto> ''eu-west-1''] w0) = Inr [s3_client, dynamodb]
   \<and> map region_name [s3_client, dynamodb] = [''us-east-1'', ''us-east-1'']
   \<and> map region_name (fst (local_session [''AWS_DEFAULT_REGION'' \<mapsto> ''eu-west-1''] w0))
       = [''eu-west-1'', ''eu-west-1'']"
  by (simp add: startup_def s3_client_def dynamodb_def local_session_def getenv_def
      session_clients_def Let_def)

subsection \<open>Querying a table\<close>

text \<open>
  Claim C8. \<open>get_item\<close> answers with no \<open>'Item'\<close> or with an item that holds at
  least its key attribute; it has no empty \<open>'Item'\<close>. On every such outcome of the
  backend \<open>query_dynamodb\<close> returns a string: \<open>"Found item: " + str(item)\<close> when the
  response contains an \<open>'Item'\<close>, exactly \<open>"No item found with {key}={value}"\<close> when it
  contains none, and \<open>"Error querying DynamoDB: " + str(e)\<close> when the backend raises
  \<open>e\<close>. The handlers of the two FastMCP servers agree.
\<close>

theorem query_dynamodb_outcomes:
  assumes "\<forall>response. fst (get_item X table_name key v (bstate w)) = Inr response
             \<longrightarrow> response ''Item'' \<noteq> Some []"
  shows "fst (strands_query_dynamodb X table_name key v w) =
     (case fst (get_item X table_name key v (bstate w)) of
        Inl e \<Rightarrow> ''Error querying DynamoDB: '' @ exn_str e
      | Inr response \<Rightarrow>
          (case response ''Item'' of
             None \<Rightarrow> ''No item found with '' @ key @ ''='' @ v
           | Some item \<Rightarrow> ''Found item: '' @ str_item X item))
   \<and> fst (local_query_dynamodb X table_name key v w)
       = fst (strands_query_dynamodb X table_name key v w)"
proof (cases "fst (get_item X table_name key v (bstate w))")
  case (Inl e)
  then show ?thesis by (simp add: query_dynamodb_cases)
next
  case (Inr response)
  show ?thesis
  proof (cases "response ''Item''")
    case None
    with Inr show ?thesis by (simp add: query_dynamodb_cases)
  next
    case (Some item)
    with Inr assms have "item \<noteq> []" by auto
    with Inr Some show ?thesis by (simp add: query_dynamodb_cases)
  qed
qed

theorem query_dynamodb_outcomes_witness:
  "fst (get_item demo ''users'' ''id'' ''1'' (bstate w0))
       = Inr [''Item'' \<mapsto> [(''id'', ''1''), (''name'', ''Ann'')]]
   \<and> fst (strands_query_dynamodb demo ''users'' ''id'' ''1'' w0) = ''Found item: {id: 1, name: Ann}''
   \<and> fst (get_item demo ''users'' ''id'' ''5'' (bstate w0)) = Inr Map.empty
   \<and> fst (strands_query_dynamodb demo ''users'' ''id'' ''5'' w0) = ''No item found with id=5''
   \<and> fst (strands_query_dynamodb demo ''orders'' ''id'' ''5'' w0)
       = ''Error querying DynamoDB: Requested resource not found''"
proof -
  have g1: "fst (get_item demo ''users'' ''id'' ''1'' (bstate w0))
       = Inr [''Item'' \<mapsto> [(''id'', ''1''), (''name'', ''Ann'')]]"
    and g2: "fst (get_item demo ''users'' ''id'' ''5'' (bstate w0)) = Inr Map.empty"
    and g3: "fst (get_item demo ''orders'' ''id'' ''5'' (bstate w0))
       = Inl (Exn ''ResourceNotFoundException'' ''Requested resource not found'')"
    by (simp_all add: demo_def)
  have h1: "\<forall>response. fst (get_item demo ''users'' ''id'' ''1'' (bstate w0)) = Inr response
             \<longrightarrow> response ''Item'' \<noteq> Some []"
    unfolding g1 by auto
  have h2: "\<forall>response. fst (get_item demo ''users'' ''id'' ''5'' (bstate w0)) = Inr response
             \<longrightarrow> response ''Item'' \<noteq> Some []"
    unfolding g2 by auto
  have h3: "\<forall>response. fst (get_item demo ''orders'' ''id'' ''5'' (bstate w0)) = Inr response
             \<longrightarrow> response ''Item'' \<noteq> Some []"
    unfolding g3 by auto
  have s: "str_item demo [(''id'', ''1''), (''name'', ''Ann'')] = ''{id: 1, name: Ann}''"
    by (simp add: demo_def)
  show ?thesis
    using query_dynamodb_outcomes [OF h1] query_dynamodb_outcomes [OF h2]
      query_dynamodb_outcomes [OF h3]
    unfolding g1 g2 g3 by (simp add: s)
qed

subsection \<open>Putting an item that is not JSON\<close>

text \<open>
  Claim C9, as the code has it. For every \<open>item_json\<close> on which \<open>json.loads\<close>
  raises an exception \<open>e\<close>, \<open>put_dynamodb_item\<close> returns
  \<open>"Error putting item to DynamoDB: " + str(e)\<close>, no backend operation is invoked (the
  record of backend calls is unchanged) and the backend state is what it was; the
  handler of the HTTP server changes nothing at all.
\<close>

theorem invalid_json_no_write:
  assumes "json_loads X item_json = Inl e"
  shows "fst (strands_put_dynamodb_item X table_name item_json w)
           = ''Error putting item to DynamoDB: '' @ exn_str e
       \<and> calls (snd (strands_put_dynamodb_item X table_name item_json w)) = calls w
       \<and> bstate (snd (strands_put_dynamodb_item X table_name item_json w)) = bstate w
       \<and> local_put_dynamodb_item X table_name item_json w
           = (''Error putting item to DynamoDB: '' @ exn_str e, w)"
  using assms
  by (simp add: strands_put_dynamodb_item_def local_put_dynamodb_item_def failed_def Let_def)

text \<open>
  Claim C9 as stated fails: \<open>json.loads\<close> accepts texts that are not valid JSON,
  the literals \<open>NaN\<close>, \<open>Infinity\<close> and \<open>-Infinity\<close>. On the object text \<open>nan_item\<close>,
  which is not JSON, the handler goes on and invokes the put operation of the table; the
  operation raises, the answer is an error string and the backend state is unchanged,
  but the operation has been invoked.
\<close>

theorem invalid_json_counterexample:
  "\<not> may_be_json nan_item
   \<and> json_loads demo nan_item = Inr ''{x: nan}''
   \<and> calls (snd (strands_put_dynamodb_item demo ''users'' nan_item w0)) = [PutItem ''users'']
   \<and> fst (strands_put_dynamodb_item demo ''users'' nan_item w0)
       = ''Error putting item to DynamoDB: Float types are not supported. Use Decimal types instead.''
   \<and> bstate (snd (strands_put_dynamodb_item demo ''users'' nan_item w0)) = 0"
proof -
  have j: "json_loads demo nan_item = Inr ''{x: nan}''"
    by (simp add: demo_def nan_item_def)
  have p: "put_item demo ''users'' ''{x: nan}'' 0
             = (Inl (Exn ''TypeError'' ''Float types are not supported. Use Decimal types instead.''), 0)"
    by (simp add: demo_def)
  have n: "\<not> may_be_json nan_item"
    by (simp add: may_be_json_def nan_item_def json_characters_def)
  show ?thesis
    using j p n
    by (simp add: strands_put_dynamodb_item_def invoke_def failed_def Let_def w0_def)
qed

theorem invalid_json_no_write_witness:
  "json_loads demo ''{oops'' = Inl (Exn ''JSONDecodeError'' ''Expecting value'')
   \<and> fst (strands_put_dynamodb_item demo ''users'' ''{oops'' w0)
       = ''Error putting item to DynamoDB: Expecting value''
   \<and> calls (snd (strands_put_dynamodb_item demo ''users'' ''{oops'' w0)) = []
   \<and> bstate (snd (strands_put_dynamodb_item demo ''users'' ''{oops'' w0)) = 0
   \<and> bstate (snd (strands_put_dynamodb_item demo ''users'' ''{}'' w0)) = 1"
proof -
  have h: "json_loads demo ''{oops'' = Inl (Exn ''JSONDecodeError'' ''Expecting value'')"
    by (simp add: demo_def nan_item_def)
  have ok: "bstate (snd (strands_put_dynamodb_item demo ''users'' ''{}'' w0)) = 1"
    by (simp add: strands_put_dynamodb_item_def invoke_def Let_def demo_def nan_item_def w0_def log_def)
  show ?thesis
    using h ok invalid_json_no_write [OF h, of "''users''" w0]
    by (simp add: w0_def)
qed

subsection \<open>The bucket listing\<close>

text \<open>
  Claim C10, as the code has it. For every list-buckets response with the buckets
  \<open>bs\<close>, named \<open>names\<close> in that order: the count embedded in the text that
  \<open>list_s3_buckets\<close> of the FastMCP stdio server and of the HTTP server return is the
  number of names, and the listing after it is the names, in the backend's order, joined
  by \<open>", "\<close> (FastMCP stdio server) or one per line after \<open>"  - "\<close> (HTTP server); read
  back, the listing gives exactly \<open>names\<close> when no name is empty or contains the
  separator. The \<open>list_s3_buckets\<close> branch of the stdio server's \<open>call_tool\<close> embeds no
  count: its text is \<open>"S3 Buckets: "\<close> and the same names joined by \<open>", "\<close>.
\<close>

theorem list_s3_buckets_listing:
  assumes "fst (list_buckets X (bstate w)) = Inr response"
    and "response ''Buckets'' = Some bs"
    and "map (\<lambda>b. b ''Name'') bs = map Some names"
  shows "length names = length bs
       \<and> embedded_count (fst (strands_list_s3_buckets X w)) = length names
       \<and> listing (fst (strands_list_s3_buckets X w)) = join '', '' names
       \<and> ((\<forall>n \<in> set names. n \<noteq> [] \<and> CHR '','' \<notin> set n)
            \<longrightarrow> listed_names (fst (strands_list_s3_buckets X w)) = names)
       \<and> (\<exists>r. fst (local_list_s3_buckets X w) = Inr r
              \<and> embedded_count r = length names
              \<and> ((\<forall>n \<in> set names. CHR 0x0A \<notin> set n) \<longrightarrow> listed_lines r = names))
       \<and> fst (call_tool X ''list_s3_buckets'' arguments w)
           = Inr [TextContent ''text'' (''S3 Buckets: '' @ join '', '' names)]"
proof -
  have n: "bucket_names response = Inr names" using assms(2,3) by (rule bucket_names_names)
  have len: "length names = length bs" using assms(3) by (metis length_map)
  note s = strands_list_s3_buckets_text [OF assms(1) n]
  note l = local_list_s3_buckets_text [OF assms(1) n]
  have s1: "embedded_count (fst (strands_list_s3_buckets X w)) = length names"
    unfolding s by (rule embedded_count_strands)
  have s2: "listing (fst (strands_list_s3_buckets X w)) = join '', '' names"
    unfolding s by (rule listing_strands)
  have s3: "(\<forall>n \<in> set names. n \<noteq> [] \<and> CHR '','' \<notin> set n)
            \<longrightarrow> listed_names (fst (strands_list_s3_buckets X w)) = names"
    using s2 by (blast intro: listed_names_join)
  let ?r = "''S3 Buckets ('' @ str_nat (length names) @ '' total):'' @ [CHR 0x0A]
             @ join [CHR 0x0A] (map (\<lambda>b. ''  - '' @ b) names)"
  have l1: "embedded_count ?r = length names" by (rule embedded_count_local)
  have l2: "listing ?r = join [CHR 0x0A] (map (\<lambda>b. ''  - '' @ b) names)" by (rule listing_local)
  have l3: "(\<forall>n \<in> set names. CHR 0x0A \<notin> set n) \<longrightarrow> listed_lines ?r = names"
    using l2 by (blast intro: listed_lines_join)
  have c: "fst (call_tool X ''list_s3_buckets'' arguments w)
           = Inr [TextContent ''text'' (''S3 Buckets: '' @ join '', '' names)]"
    by (rule call_tool_list_s3_buckets_text [OF assms(1) n])
  from l l1 l3 have "\<exists>r. fst (local_list_s3_buckets X w) = Inr r
              \<and> embedded_count r = length names
              \<and> ((\<forall>n \<in> set names. CHR 0x0A \<notin> set n) \<longrightarrow> listed_lines r = names)"
    by blast
  with len s1 s2 s3 c show ?thesis by blast
qed


text \<open>
  Claim C10 as stated fails for the \<open>list_s3_buckets\<close> branch of \<open>call_tool\<close>: with
  two buckets in the response its text is \<open>S3 Buckets: alpha, beta\<close>, in which no count
  is embedded; read for one, it gives 0, not 2.
\<close>

theorem list_s3_buckets_counterexample:
  "fst (list_buckets demo (bstate w0))
       = Inr [''Buckets'' \<mapsto> [[''Name'' \<mapsto> ''alpha''], [''Name'' \<mapsto> ''beta'']]]
   \<and> fst (call_tool demo ''list_s3_buckets'' Map.empty w0)
       = Inr [TextContent ''text'' ''S3 Buckets: alpha, beta'']
   \<and> embedded_count ''S3 Buckets: alpha, beta'' = 0"
  by (simp add: call_tool_fst try_list_s3_buckets invoke_def bucket_names_def demo_def
      embedded_count_def nat_of_digits_def is_digit_def)

theorem list_s3_buckets_listing_witness:
  "fst (list_buckets demo (bstate w0))
       = Inr [''Buckets'' \<mapsto> [[''Name'' \<mapsto> ''alpha''], [''Name'' \<mapsto> ''beta'']]]
   \<and> embedded_count (fst (strands_list_s3_buckets demo w0)) = 2
   \<and> listing (fst (strands_list_s3_buckets demo w0)) = ''alpha, beta''
   \<and> listed_names (fst (strands_list_s3_buckets demo w0)) = [''alpha'', ''beta'']"
proof -
  let ?bs = "[[''Name'' \<mapsto> ''alpha''], [''Name'' \<mapsto> ''beta'']] :: bucket list"
  let ?names = "[''alpha'', ''beta'']"
  have h1: "fst (list_buckets demo (bstate w0)) = Inr [''Buckets'' \<mapsto> ?bs]"
    by (simp add: demo_def)
  have h2: "[''Buckets'' \<mapsto> ?bs] ''Buckets'' = Some ?bs" by simp
  have h3: "map (\<lambda>b. b ''Name'') ?bs = map Some ?names" by simp
  have h4: "\<forall>n \<in> set ?names. n \<noteq> [] \<and> CHR '','' \<notin> set n" by simp
  from list_s3_buckets_listing [OF h1 h2 h3, of Map.empty] h4
  have "embedded_count (fst (strands_list_s3_buckets demo w0)) = length ?names
      \<and> listing (fst (strands_list_s3_buckets demo w0)) = join '', '' ?names
      \<and> listed_names (fst (strands_list_s3_buckets demo w0)) = ?names"
    by blast
  with h1 show ?thesis by simp
qed

end
